theory Spec2Isabelle
  imports Complex_Main "HOL-Library.AList"
begin

section \<open>The source\<close>

text \<open>
  AnonChat is an anonymous chat server on socket.io. The file \<open>PRODUCTION_FIXES.md\<close>
  holds two servers. The basic server (from line 229) keeps a flat waiting queue and sweeps
  empty rooms with \<open>cleanupEmptyRooms\<close>. The matchmaking server (from line 840) has the
  classes \<open>SessionManager\<close>, \<open>ReputationSystem\<close>, \<open>SmartMatchmaking\<close> and
  \<open>AdminMetrics\<close>, the function \<open>checkRateLimit\<close> and the socket handlers. The
  definitions below follow that code; all state lives in memory and every handler runs to
  completion before the next one starts, so an operation is a function from state to state.
\<close>

section \<open>JavaScript values\<close>

text \<open>
  The server is untyped JavaScript: a socket payload field, and therefore a key of a
  \<open>Map\<close>, can be any primitive value. Numbers that the server handles are integers
  (milliseconds, counters, scores), so \<open>JNum\<close> carries an \<open>int\<close>; NaN and
  fractions are outside this value type.
\<close>

datatype jsval = JUndefined | JNull | JBool bool | JNum int | JStr string

text \<open>\<open>typeof v\<close>.\<close>

fun typeof :: "jsval \<Rightarrow> string" where
  "typeof JUndefined = ''undefined''"
| "typeof JNull = ''object''"
| "typeof (JBool b) = ''boolean''"
| "typeof (JNum n) = ''number''"
| "typeof (JStr s) = ''string''"

text \<open>The truthiness test that \<open>!v\<close>, \<open>v && ...\<close> and \<open>if (v)\<close> apply.\<close>

fun truthy :: "jsval \<Rightarrow> bool" where
  "truthy JUndefined = False"
| "truthy JNull = False"
| "truthy (JBool b) = b"
| "truthy (JNum n) = (n \<noteq> 0)"
| "truthy (JStr s) = (s \<noteq> [])"

type_synonym userId = jsval

section \<open>ReputationSystem\<close>

text \<open>
  One entry of \<open>this.reputations\<close>. \<open>Date.now()\<close> is passed to every operation as
  the argument \<open>now\<close> (milliseconds). \<open>avgResponseTime\<close> is a double in the source;
  here it is an exact rational, so the rounding of \<open>* 0.7\<close> and \<open>* 0.3\<close> is not
  modelled; no write of the score reads this field. The score and the counters only ever
  hold integers.
\<close>

record reputation =
  score :: int
  messageCount :: int
  avgResponseTime :: rat
  skipCount :: int
  reportCount :: int
  spamScore :: int
  lastActivity :: int
  createdAt :: int

type_synonym reputations = "userId \<rightharpoonup> reputation"

definition INITIAL_SCORE :: int where
  "INITIAL_SCORE = 100"

definition freshReputation :: "int \<Rightarrow> reputation" where
  "freshReputation now =
     \<lparr>score = INITIAL_SCORE, messageCount = 0, avgResponseTime = 0, skipCount = 0,
      reportCount = 0, spamScore = 0, lastActivity = now, createdAt = now\<rparr>"

text \<open>\<open>initializeReputation\<close> returns the stored record; the model returns it with the map.\<close>

definition initializeReputation :: "int \<Rightarrow> userId \<Rightarrow> reputations \<Rightarrow> reputations \<times> reputation" where
  "initializeReputation now u reps =
     (case reps u of
        None \<Rightarrow> (reps(u \<mapsto> freshReputation now), freshReputation now)
      | Some rep \<Rightarrow> (reps, rep))"

definition getReputation :: "int \<Rightarrow> userId \<Rightarrow> reputations \<Rightarrow> reputations \<times> reputation" where
  "getReputation now u reps =
     (case reps u of
        Some rep \<Rightarrow> (reps, rep)
      | None \<Rightarrow> initializeReputation now u reps)"

definition recordMessage :: "int \<Rightarrow> userId \<Rightarrow> bool \<Rightarrow> reputations \<Rightarrow> reputations" where
  "recordMessage now u isSpam reps =
     (let (reps1, rep) = getReputation now u reps;
          rep1 = rep\<lparr>messageCount := messageCount rep + 1, lastActivity := now\<rparr>;
          rep2 = (if isSpam
                  then rep1\<lparr>spamScore := spamScore rep1 + 10, score := max 0 (score rep1 - 5)\<rparr>
                  else if spamScore rep1 > 0
                  then rep1\<lparr>spamScore := max 0 (spamScore rep1 - 1)\<rparr>
                  else rep1)
      in reps1(u \<mapsto> rep2))"

definition recordResponseTime :: "int \<Rightarrow> userId \<Rightarrow> rat \<Rightarrow> reputations \<Rightarrow> reputations" where
  "recordResponseTime now u responseTimeMs reps =
     (let (reps1, rep) = getReputation now u reps;
          rep1 = (if avgResponseTime rep = 0
                  then rep\<lparr>avgResponseTime := responseTimeMs\<rparr>
                  else rep\<lparr>avgResponseTime :=
                         avgResponseTime rep * (7 / 10) + responseTimeMs * (3 / 10)\<rparr>)
      in reps1(u \<mapsto> rep1))"

definition recordSkip :: "int \<Rightarrow> userId \<Rightarrow> reputations \<Rightarrow> reputations" where
  "recordSkip now u reps =
     (let (reps1, rep) = getReputation now u reps
      in reps1(u \<mapsto> rep\<lparr>skipCount := skipCount rep + 1,
                         score := max 0 (score rep - 3),
                         lastActivity := now\<rparr>))"

definition recordReport :: "int \<Rightarrow> userId \<Rightarrow> reputations \<Rightarrow> reputations" where
  "recordReport now u reps =
     (let (reps1, rep) = getReputation now u reps
      in reps1(u \<mapsto> rep\<lparr>reportCount := reportCount rep + 1,
                         score := max 0 (score rep - 15),
                         lastActivity := now\<rparr>))"

definition isToxic :: "int \<Rightarrow> userId \<Rightarrow> reputations \<Rightarrow> reputations \<times> bool" where
  "isToxic now u reps =
     (let (reps1, rep) = getReputation now u reps
      in (reps1, score rep < 30 \<or> reportCount rep > 3 \<or> spamScore rep > 50))"

definition getMatchmakingPriority :: "int \<Rightarrow> userId \<Rightarrow> reputations \<Rightarrow> reputations \<times> int" where
  "getMatchmakingPriority now u reps =
     (let (reps1, rep) = getReputation now u reps
      in (reps1, score rep div 20))"

text \<open>
  \<open>decayReputations\<close> visits every entry once and treats it on its own, so the loop is
  the pointwise map below. \<open>Math.floor(n * 0.95)\<close> is taken exactly, as
  \<open>n * 19 div 20\<close>.
\<close>

definition decayOne :: "reputation \<Rightarrow> reputation" where
  "decayOne rep =
     rep\<lparr>skipCount := skipCount rep * 19 div 20,
         spamScore := spamScore rep * 19 div 20,
         score := (if score rep < INITIAL_SCORE
                   then min INITIAL_SCORE (score rep + 1) else score rep)\<rparr>"

definition decayReputations :: "int \<Rightarrow> reputations \<Rightarrow> reputations" where
  "decayReputations now reps =
     (\<lambda>u. case reps u of
             None \<Rightarrow> None
           | Some rep \<Rightarrow> if now - lastActivity rep > 86400000 then None
                         else Some (decayOne rep))"

text \<open>A call of one of the operations that write the score, with the time of the call.\<close>

datatype rep_op =
    InitializeReputation userId
  | RecordMessage userId bool
  | RecordSkip userId
  | RecordReport userId
  | RecordResponseTime userId rat
  | DecayReputations

fun rep_step :: "reputations \<Rightarrow> int \<times> rep_op \<Rightarrow> reputations" where
  "rep_step reps (now, InitializeReputation u) = fst (initializeReputation now u reps)"
| "rep_step reps (now, RecordMessage u isSpam) = recordMessage now u isSpam reps"
| "rep_step reps (now, RecordSkip u) = recordSkip now u reps"
| "rep_step reps (now, RecordReport u) = recordReport now u reps"
| "rep_step reps (now, RecordResponseTime u ms) = recordResponseTime now u ms reps"
| "rep_step reps (now, DecayReputations) = decayReputations now reps"

definition rep_run :: "reputations \<Rightarrow> (int \<times> rep_op) list \<Rightarrow> reputations" where
  "rep_run reps ops = foldl rep_step reps ops"

definition score_ok :: "reputations \<Rightarrow> bool" where
  "score_ok reps = (\<forall>u rep. reps u = Some rep \<longrightarrow> 0 \<le> score rep \<and> score rep \<le> 100)"

section \<open>SessionManager\<close>

text \<open>
  The message object that the \<open>sendMessage\<close> handler builds and buffers. Its fields
  \<open>id\<close>, \<open>roomId\<close> and \<open>message\<close> are \<open>msgId\<close>, \<open>msgRoomId\<close> and \<open>msgText\<close>
  here; \<open>msgRoomId\<close> is whatever value the payload carried.
\<close>

record messageData =
  msgId :: string
  msgRoomId :: jsval
  senderId :: userId
  senderName :: string
  msgText :: string
  timestamp :: int

text \<open>
  A session object. The fields \<open>createdAt\<close> and \<open>lastActivity\<close> of the source are
  \<open>sessCreatedAt\<close> and \<open>sessLastActivity\<close>; \<open>null\<close> is \<open>None\<close>.
\<close>

record session =
  token :: string
  socketId :: string
  userId :: userId
  username :: string
  sessCreatedAt :: int
  sessLastActivity :: int
  currentRoom :: "jsval option"
  currentMatch :: "string option"
  messageBuffer :: "messageData list"
  reconnectCount :: int

text \<open>
  \<open>this.sessions\<close> is a \<open>Map\<close> that \<open>cleanupExpiredSessions\<close> iterates, so it is an
  association list in insertion order: \<open>AList.update\<close> overwrites a key in place or
  appends it, as \<open>Map.set\<close> does. \<open>this.socketToSession\<close> is only looked up.
\<close>

record sessionManager =
  sessions :: "(string \<times> session) list"
  socketToSession :: "string \<rightharpoonup> string"

definition SESSION_TTL :: int where
  "SESSION_TTL = 60000"

definition MESSAGE_BUFFER_SIZE :: nat where
  "MESSAGE_BUFFER_SIZE = 20"

definition newSessionManager :: sessionManager where
  "newSessionManager = \<lparr>sessions = [], socketToSession = Map.empty\<rparr>"

text \<open>
  \<open>createSession\<close>: the argument \<open>tok\<close> is the value that \<open>generateSessionToken()\<close>
  draws (32 random bytes in hex).
\<close>

definition createSession ::
  "int \<Rightarrow> string \<Rightarrow> string \<Rightarrow> userId \<Rightarrow> string \<Rightarrow> sessionManager \<Rightarrow> sessionManager \<times> string"
where
  "createSession now tok sock uid uname sm =
     (let sess = \<lparr>token = tok, socketId = sock, userId = uid, username = uname,
                  sessCreatedAt = now, sessLastActivity = now, currentRoom = None,
                  currentMatch = None, messageBuffer = [], reconnectCount = 0\<rparr>
      in (sm\<lparr>sessions := AList.update tok sess (sessions sm),
             socketToSession := (socketToSession sm)(sock \<mapsto> tok)\<rparr>, tok))"

text \<open>The two \<open>updates\<close> objects that the handlers pass to \<open>updateSession\<close>.\<close>

datatype sessionUpdate = SetCurrentRoom jsval | SetCurrentMatch string

fun assignUpdate :: "sessionUpdate \<Rightarrow> session \<Rightarrow> session" where
  "assignUpdate (SetCurrentRoom r) sess = sess\<lparr>currentRoom := Some r\<rparr>"
| "assignUpdate (SetCurrentMatch m) sess = sess\<lparr>currentMatch := Some m\<rparr>"

definition updateSession ::
  "int \<Rightarrow> string \<Rightarrow> sessionUpdate \<Rightarrow> sessionManager \<Rightarrow> sessionManager \<times> bool"
where
  "updateSession now tok updates sm =
     (case map_of (sessions sm) tok of
        Some sess \<Rightarrow>
          (sm\<lparr>sessions := AList.update tok
                  ((assignUpdate updates sess)\<lparr>sessLastActivity := now\<rparr>) (sessions sm)\<rparr>, True)
      | None \<Rightarrow> (sm, False))"

definition addMessageToBuffer :: "string \<Rightarrow> messageData \<Rightarrow> sessionManager \<Rightarrow> sessionManager" where
  "addMessageToBuffer tok m sm =
     (case map_of (sessions sm) tok of
        Some sess \<Rightarrow>
          (let pushed = messageBuffer sess @ [m];
               buf = (if length pushed > MESSAGE_BUFFER_SIZE then tl pushed else pushed)
           in sm\<lparr>sessions := AList.update tok (sess\<lparr>messageBuffer := buf\<rparr>) (sessions sm)\<rparr>)
      | None \<Rightarrow> sm)"

definition getSession :: "int \<Rightarrow> string \<Rightarrow> sessionManager \<Rightarrow> session option" where
  "getSession now tok sm =
     (case map_of (sessions sm) tok of
        Some sess \<Rightarrow> if now - sessLastActivity sess < SESSION_TTL then Some sess else None
      | None \<Rightarrow> None)"

definition getSessionBySocket :: "int \<Rightarrow> string \<Rightarrow> sessionManager \<Rightarrow> session option" where
  "getSessionBySocket now sock sm =
     (case socketToSession sm sock of
        Some tok \<Rightarrow> if tok \<noteq> [] then getSession now tok sm else None
      | None \<Rightarrow> None)"

definition reconnectSession ::
  "int \<Rightarrow> string \<Rightarrow> string \<Rightarrow> sessionManager \<Rightarrow> sessionManager \<times> session option"
where
  "reconnectSession now tok newSocketId sm =
     (case getSession now tok sm of
        Some sess \<Rightarrow>
          (let socks1 = (socketToSession sm)(socketId sess := None);
               sess1 = sess\<lparr>socketId := newSocketId,
                            reconnectCount := reconnectCount sess + 1,
                            sessLastActivity := now\<rparr>;
               socks2 = socks1(newSocketId \<mapsto> tok)
           in (sm\<lparr>sessions := AList.update tok sess1 (sessions sm),
                  socketToSession := socks2\<rparr>, Some sess1))
      | None \<Rightarrow> (sm, None))"

definition deleteSession :: "string \<Rightarrow> sessionManager \<Rightarrow> sessionManager" where
  "deleteSession tok sm =
     (case map_of (sessions sm) tok of
        Some sess \<Rightarrow>
          sm\<lparr>socketToSession := (socketToSession sm)(socketId sess := None),
             sessions := AList.delete tok (sessions sm)\<rparr>
      | None \<Rightarrow> sm)"

text \<open>
  The sweep visits the entries in insertion order; deleting the entry being visited does
  not disturb the iteration of a \<open>Map\<close>.
\<close>

definition cleanupExpiredSessions :: "int \<Rightarrow> sessionManager \<Rightarrow> sessionManager" where
  "cleanupExpiredSessions now sm =
     foldl (\<lambda>acc (tok, sess).
              if now - sessLastActivity sess > SESSION_TTL then deleteSession tok acc else acc)
           sm (sessions sm)"

text \<open>The buffer that a reconnect with token \<open>tok\<close> would replay, if the session exists.\<close>

definition bufferOf :: "sessionManager \<Rightarrow> string \<Rightarrow> messageData list option" where
  "bufferOf sm tok = map_option messageBuffer (map_of (sessions sm) tok)"

text \<open>The length of that buffer; 0 when there is no session.\<close>

definition bufferCount :: "sessionManager \<Rightarrow> string \<Rightarrow> nat" where
  "bufferCount sm tok = (case bufferOf sm tok of None \<Rightarrow> 0 | Some b \<Rightarrow> length b)"

text \<open>A sequence of \<open>addMessageToBuffer(token, message)\<close> calls.\<close>

definition addMessages :: "sessionManager \<Rightarrow> (string \<times> messageData) list \<Rightarrow> sessionManager" where
  "addMessages sm calls = foldl (\<lambda>acc (tok, m). addMessageToBuffer tok m acc) sm calls"

text \<open>The messages of a call sequence that went to token \<open>tok\<close>, in call order.\<close>

definition sentTo :: "string \<Rightarrow> (string \<times> messageData) list \<Rightarrow> messageData list" where
  "sentTo tok calls = map snd (filter (\<lambda>c. fst c = tok) calls)"

section \<open>Rate limiting\<close>

text \<open>
  One entry of \<open>rateLimits\<close>; the field \<open>messageCount\<close> of the source is
  \<open>windowCount\<close> here. The constants are those of the \<open>RATE_LIMIT\<close> object.
\<close>

record limits =
  lastMessage :: int
  windowCount :: int
  lastTyping :: int
  lastReport :: int
  windowStart :: int

type_synonym rateLimits = "userId \<rightharpoonup> limits"

definition MESSAGE_INTERVAL :: int where "MESSAGE_INTERVAL = 500"
definition MESSAGE_BURST :: int where "MESSAGE_BURST = 5"
definition TYPING_INTERVAL :: int where "TYPING_INTERVAL = 1000"
definition REPORT_INTERVAL :: int where "REPORT_INTERVAL = 10000"

definition freshLimits :: "int \<Rightarrow> limits" where
  "freshLimits now =
     \<lparr>lastMessage = 0, windowCount = 0, lastTyping = 0, lastReport = 0, windowStart = now\<rparr>"

text \<open>
  \<open>checkRateLimit(userId, type)\<close>. The entry is created on first use and then mutated
  in place, so the returned map holds the entry in every branch.
\<close>

definition checkRateLimit :: "int \<Rightarrow> userId \<Rightarrow> string \<Rightarrow> rateLimits \<Rightarrow> rateLimits \<times> bool" where
  "checkRateLimit now u type rl =
     (let lim = (case rl u of Some l \<Rightarrow> l | None \<Rightarrow> freshLimits now)
      in if type = ''message'' then
           (let lim1 = (if now - windowStart lim > 10000
                        then lim\<lparr>windowCount := 0, windowStart := now\<rparr> else lim)
            in if windowCount lim1 \<ge> MESSAGE_BURST \<and> now - lastMessage lim1 < MESSAGE_INTERVAL
               then (rl(u \<mapsto> lim1), False)
               else (rl(u \<mapsto> lim1\<lparr>lastMessage := now, windowCount := windowCount lim1 + 1\<rparr>),
                     True))
         else if type = ''typing'' then
           (if now - lastTyping lim < TYPING_INTERVAL then (rl(u \<mapsto> lim), False)
            else (rl(u \<mapsto> lim\<lparr>lastTyping := now\<rparr>), True))
         else if type = ''report'' then
           (if now - lastReport lim < REPORT_INTERVAL then (rl(u \<mapsto> lim), False)
            else (rl(u \<mapsto> lim\<lparr>lastReport := now\<rparr>), True))
         else (rl(u \<mapsto> lim), True))"

text \<open>
  A run of evaluations for one user and one action kind, at the given times; the result
  lists the verdicts in call order.
\<close>

fun checkRateLimits :: "userId \<Rightarrow> string \<Rightarrow> rateLimits \<Rightarrow> int list \<Rightarrow> rateLimits \<times> bool list" where
  "checkRateLimits u type rl [] = (rl, [])"
| "checkRateLimits u type rl (now # ts) =
     (let (rl1, ok) = checkRateLimit now u type rl;
          (rl2, oks) = checkRateLimits u type rl1 ts
      in (rl2, ok # oks))"

text \<open>The limits that a call for \<open>u\<close> at time \<open>now\<close> starts from.\<close>

definition limitsOf :: "int \<Rightarrow> rateLimits \<Rightarrow> userId \<Rightarrow> limits" where
  "limitsOf now rl u = (case rl u of Some l \<Rightarrow> l | None \<Rightarrow> freshLimits now)"

text \<open>
  The part of a user's entry that the message branch reads: the count \<open>c\<close>, the start
  \<open>w\<close> of the window and the time \<open>lm\<close> of the last allowed message.
\<close>

definition burstState :: "rateLimits \<Rightarrow> userId \<Rightarrow> int \<Rightarrow> int \<Rightarrow> int \<Rightarrow> bool" where
  "burstState rl u c w lm =
     (case rl u of None \<Rightarrow> False
      | Some l \<Rightarrow> windowCount l = c \<and> windowStart l = w \<and> lastMessage l = lm)"

section \<open>SmartMatchmaking\<close>

text \<open>
  \<open>userMetadata\<close> entries. \<open>responseSpeed\<close> copies \<open>avgResponseTime\<close>.
\<close>

record metadata =
  priority :: int
  joinedAt :: int
  activityLevel :: int
  responseSpeed :: rat

record activeMatch =
  user1 :: userId
  user2 :: userId
  startTime :: int

text \<open>
  \<open>waitingQueue\<close> maps a priority to a \<open>Set\<close> of user ids. The candidates are
  visited in the insertion order of that \<open>Set\<close> and the first best one wins, so a
  bucket is a list without repetition: \<open>setAdd\<close> is \<open>Set.add\<close>, \<open>removeAll\<close> is
  \<open>Set.delete\<close>.
\<close>

record matchmaking =
  waitingQueue :: "int \<rightharpoonup> userId list"
  userMetadata :: "userId \<rightharpoonup> metadata"
  activeMatches :: "string \<rightharpoonup> activeMatch"

definition newMatchmaking :: matchmaking where
  "newMatchmaking = \<lparr>waitingQueue = Map.empty, userMetadata = Map.empty, activeMatches = Map.empty\<rparr>"

definition setAdd :: "'a \<Rightarrow> 'a list \<Rightarrow> 'a list" where
  "setAdd x xs = (if x \<in> set xs then xs else xs @ [x])"

definition calculateActivityLevel :: "reputation \<Rightarrow> int" where
  "calculateActivityLevel rep =
     (if messageCount rep < 10 then 25
      else if messageCount rep < 50 then 50
      else if messageCount rep < 200 then 75
      else 100)"

datatype queueResult = QueueRejected string | QueueAccepted int

definition addToQueue ::
  "int \<Rightarrow> userId \<Rightarrow> reputations \<Rightarrow> matchmaking \<Rightarrow> reputations \<times> matchmaking \<times> queueResult"
where
  "addToQueue now u reps mm =
     (let (reps1, rep) = getReputation now u reps;
          (reps2, toxic) = isToxic now u reps1
      in if toxic then (reps2, mm, QueueRejected ''reputation_too_low'')
         else
           (let (reps3, prio) = getMatchmakingPriority now u reps2;
                bucket = (case waitingQueue mm prio of None \<Rightarrow> [] | Some q \<Rightarrow> q);
                meta = \<lparr>priority = prio, joinedAt = now,
                        activityLevel = calculateActivityLevel rep,
                        responseSpeed = avgResponseTime rep\<rparr>
            in (reps3,
                mm\<lparr>waitingQueue := (waitingQueue mm)(prio \<mapsto> setAdd u bucket),
                   userMetadata := (userMetadata mm)(u \<mapsto> meta)\<rparr>,
                QueueAccepted prio)))"

definition removeFromQueue :: "userId \<Rightarrow> matchmaking \<Rightarrow> matchmaking" where
  "removeFromQueue u mm =
     (case userMetadata mm u of
        None \<Rightarrow> mm
      | Some meta \<Rightarrow>
          (let wq = (case waitingQueue mm (priority meta) of
                       None \<Rightarrow> waitingQueue mm
                     | Some q \<Rightarrow>
                         (let q1 = removeAll u q
                          in if q1 = [] then (waitingQueue mm)(priority meta := None)
                             else (waitingQueue mm)(priority meta \<mapsto> q1)))
           in mm\<lparr>waitingQueue := wq, userMetadata := (userMetadata mm)(u := None)\<rparr>))"

text \<open>
  The compatibility score, lower is better. The source computes it in doubles; here it is
  the exact rational \<open>activityDiff + timeDiff / 1000\<close>. Where two candidates have
  exactly equal scores here, the rounding of the doubles can make one of them smaller, so
  the source may then choose the later candidate where this model keeps the first.
\<close>

definition compatScore :: "metadata \<Rightarrow> metadata \<Rightarrow> rat" where
  "compatScore userMeta candidateMeta =
     of_int \<bar>activityLevel userMeta - activityLevel candidateMeta\<bar>
       + of_int \<bar>joinedAt userMeta - joinedAt candidateMeta\<bar> / 1000"

text \<open>
  One round of the candidate loop. The state is \<open>(bestMatch, bestScore)\<close>; \<open>bestScore\<close>
  is \<open>None\<close> while it still holds \<open>Infinity\<close>.
\<close>

definition considerCandidate ::
  "(userId \<rightharpoonup> metadata) \<Rightarrow> metadata \<Rightarrow> userId option \<times> rat option \<Rightarrow> userId
     \<Rightarrow> userId option \<times> rat option"
where
  "considerCandidate metas userMeta best candidateId =
     (case metas candidateId of
        None \<Rightarrow> best
      | Some candidateMeta \<Rightarrow>
          (let sc = compatScore userMeta candidateMeta
           in if (case snd best of None \<Rightarrow> True | Some bestScore \<Rightarrow> sc < bestScore)
              then (Some candidateId, Some sc) else best))"

text \<open>
  What the loop has established after the candidates \<open>seen\<close>: nothing yet if none of
  them has metadata, otherwise a first candidate of least score among them.
\<close>

definition bestSoFar ::
  "(userId \<rightharpoonup> metadata) \<Rightarrow> metadata \<Rightarrow> userId list \<Rightarrow> userId option \<times> rat option \<Rightarrow> bool"
where
  "bestSoFar metas userMeta seen best =
     (case snd best of
        None \<Rightarrow> fst best = None \<and> (\<forall>c \<in> set seen. metas c = None)
      | Some sc \<Rightarrow>
          (\<exists>c cm. fst best = Some c \<and> c \<in> set seen \<and> metas c = Some cm
                 \<and> compatScore userMeta cm = sc)
          \<and> (\<forall>c' \<in> set seen. \<forall>cm'. metas c' = Some cm' \<longrightarrow> sc \<le> compatScore userMeta cm'))"

definition findMatchInPriority :: "userId \<Rightarrow> int \<Rightarrow> metadata \<Rightarrow> matchmaking \<Rightarrow> userId option" where
  "findMatchInPriority u prio userMeta mm =
     (case waitingQueue mm prio of
        None \<Rightarrow> None
      | Some queue \<Rightarrow>
          if length queue < 2 then None
          else
            (let candidates = filter (\<lambda>i. i \<noteq> u) queue
             in if candidates = [] then None
                else fst (foldl (considerCandidate (userMetadata mm) userMeta)
                                (None, None) candidates)))"

text \<open>\<open>!match\<close>: no candidate was returned, or the returned id is a falsy value.\<close>

definition noMatch :: "userId option \<Rightarrow> bool" where
  "noMatch m = (case m of None \<Rightarrow> True | Some v \<Rightarrow> \<not> truthy v)"

text \<open>
  \<open>findMatch\<close>: \<open>uuid\<close> is the value that \<open>uuidv4()\<close> draws for the match id. The
  result is \<open>(matchId, partnerId)\<close>, or \<open>None\<close> for \<open>null\<close>.
\<close>

definition findMatch ::
  "int \<Rightarrow> string \<Rightarrow> userId \<Rightarrow> matchmaking \<Rightarrow> matchmaking \<times> (string \<times> userId) option"
where
  "findMatch now uuid u mm =
     (case userMetadata mm u of
        None \<Rightarrow> (mm, None)
      | Some userMeta \<Rightarrow>
          (let m0 = findMatchInPriority u (priority userMeta) userMeta mm;
               m1 = (if noMatch m0 \<and> priority userMeta > 0
                     then findMatchInPriority u (priority userMeta - 1) userMeta mm else m0);
               m2 = (if noMatch m1 \<and> priority userMeta < 5
                     then findMatchInPriority u (priority userMeta + 1) userMeta mm else m1)
           in if noMatch m2 then (mm, None)
              else
                (case m2 of
                   None \<Rightarrow> (mm, None)
                 | Some partner \<Rightarrow>
                     (let mm1 = removeFromQueue u mm;
                          mm2 = removeFromQueue partner mm1;
                          matchId = ''match-'' @ uuid
                      in (mm2\<lparr>activeMatches := (activeMatches mm2)
                                 (matchId \<mapsto> \<lparr>user1 = u, user2 = partner, startTime = now\<rparr>)\<rparr>,
                          Some (matchId, partner))))))"

definition endMatch :: "string \<Rightarrow> matchmaking \<Rightarrow> matchmaking" where
  "endMatch matchId mm = mm\<lparr>activeMatches := (activeMatches mm)(matchId := None)\<rparr>"

text \<open>The priority buckets among 0 to 5 that hold a user.\<close>

definition bucketsOf :: "matchmaking \<Rightarrow> userId \<Rightarrow> int list" where
  "bucketsOf mm u =
     filter (\<lambda>p. case waitingQueue mm p of None \<Rightarrow> False | Some q \<Rightarrow> u \<in> set q) [0, 1, 2, 3, 4, 5]"

text \<open>
  A call on the matchmaking object or on the reputation system it reads, with the time of
  the call. \<open>FindMatch\<close> carries the value drawn by \<open>uuidv4()\<close>.
\<close>

datatype mm_op =
    AddToQueue userId
  | RemoveFromQueue userId
  | FindMatch string userId
  | EndMatch string
  | Reputation rep_op

fun mm_step :: "reputations \<times> matchmaking \<Rightarrow> int \<times> mm_op \<Rightarrow> reputations \<times> matchmaking" where
  "mm_step (reps, mm) (now, AddToQueue u) =
     (case addToQueue now u reps mm of (reps1, mm1, res) \<Rightarrow> (reps1, mm1))"
| "mm_step (reps, mm) (now, RemoveFromQueue u) = (reps, removeFromQueue u mm)"
| "mm_step (reps, mm) (now, FindMatch uuid u) = (reps, fst (findMatch now uuid u mm))"
| "mm_step (reps, mm) (now, EndMatch matchId) = (reps, endMatch matchId mm)"
| "mm_step (reps, mm) (now, Reputation op) = (rep_step reps (now, op), mm)"

definition mm_run ::
  "reputations \<times> matchmaking \<Rightarrow> (int \<times> mm_op) list \<Rightarrow> reputations \<times> matchmaking"
where
  "mm_run st ops = foldl mm_step st ops"

section \<open>Payload validation and sanitizing\<close>

text \<open>
  A payload is the object a client sends with an event: its own fields, in order. Reading
  a field that the object does not have gives \<open>undefined\<close> (properties inherited from
  \<open>Object.prototype\<close>, such as \<open>constructor\<close>, are not modelled; no schema of the
  handlers names one). The payload \<open>None\<close> is
  \<open>null\<close> or \<open>undefined\<close>, on which reading a field throws a \<open>TypeError\<close>; a
  primitive payload behaves as an object without the fields read here.
\<close>

type_synonym payload = "(string \<times> jsval) list"

datatype error = TypeError

definition field :: "payload \<Rightarrow> string \<Rightarrow> jsval" where
  "field data key = (case map_of data key of None \<Rightarrow> JUndefined | Some v \<Rightarrow> v)"

text \<open>The loop of \<open>validatePayload\<close> over \<open>Object.entries(schema)\<close>.\<close>

fun validateEntries :: "payload \<Rightarrow> (string \<times> string) list \<Rightarrow> bool" where
  "validateEntries data [] = True"
| "validateEntries data ((key, type) # rest) =
     (if type = ''required'' \<and> \<not> truthy (field data key) then False
      else if truthy (field data key) \<and> typeof (field data key) \<noteq> type \<and> type \<noteq> ''required''
      then False
      else validateEntries data rest)"

definition validatePayload :: "payload option \<Rightarrow> (string \<times> string) list \<Rightarrow> error + bool" where
  "validatePayload data schema =
     (case data of
        None \<Rightarrow> if schema = [] then Inr True else Inl TypeError
      | Some d \<Rightarrow> Inr (validateEntries d schema))"

text \<open>
  \<open>sanitize\<close> applies two global regular-expression replacements and \<open>trim\<close>.
  Strings are lists of 8-bit characters here, so the text is limited to code units below
  256. A line terminator is what \<open>.\<close> does not match; white space is what \<open>trim\<close>
  removes.
\<close>

definition lineTerminator :: "char \<Rightarrow> bool" where
  "lineTerminator c = (c = CHR 0x0A \<or> c = CHR 0x0D)"

definition whiteSpace :: "char \<Rightarrow> bool" where
  "whiteSpace c = (c \<in> set [CHR 0x09, CHR 0x0A, CHR 0x0B, CHR 0x0C, CHR 0x0D, CHR 0x20, CHR 0xA0])"

definition lowerAscii :: "char \<Rightarrow> char" where
  "lowerAscii c =
     (if 65 \<le> (of_char c :: nat) \<and> (of_char c :: nat) \<le> 90
      then char_of ((of_char c :: nat) + 32) else c)"

text \<open>Does \<open>s\<close> start with the lower-case literal \<open>lit\<close>, ignoring case?\<close>

definition startsWithCI :: "string \<Rightarrow> string \<Rightarrow> bool" where
  "startsWithCI lit s = (map lowerAscii (take (length lit) s) = lit)"

text \<open>
  \<open>.*?<\/script>\<close> from the start of \<open>s\<close>: the number of characters up to and
  including the first closing tag, provided no line terminator comes before it.
\<close>

fun closeScriptLen :: "string \<Rightarrow> nat option" where
  "closeScriptLen [] = None"
| "closeScriptLen (c # cs) =
     (if startsWithCI ''</script>'' (c # cs) then Some 9
      else if lineTerminator c then None
      else map_option Suc (closeScriptLen cs))"

text \<open>
  The length of the match of \<open>/<script[^>]*>.*?<\/script>/i\<close> at the start of \<open>s\<close>.
  \<open>[^>]*\<close> takes every character up to the first \<open>>\<close>; a shorter choice cannot be
  followed by \<open>>\<close>.
\<close>

definition scriptMatchLen :: "string \<Rightarrow> nat option" where
  "scriptMatchLen s =
     (if startsWithCI ''<script'' s then
        (let attrs = takeWhile (\<lambda>c. c \<noteq> CHR ''>'') (drop 7 s);
             after = drop (7 + length attrs) s
         in case after of
              [] \<Rightarrow> None
            | gt # body \<Rightarrow> map_option (\<lambda>n. 7 + length attrs + 1 + n) (closeScriptLen body))
      else None)"

text \<open>The length of the match of \<open>/<[^>]+>/\<close> at the start of \<open>s\<close>.\<close>

definition tagMatchLen :: "string \<Rightarrow> nat option" where
  "tagMatchLen s =
     (case s of
        [] \<Rightarrow> None
      | c # cs \<Rightarrow>
          if c = CHR ''<'' then
            (let inner = takeWhile (\<lambda>d. d \<noteq> CHR ''>'') cs
             in if inner \<noteq> [] \<and> length inner < length cs then Some (length inner + 2) else None)
          else None)"

text \<open>
  \<open>s.replace(re, '')\<close> with the \<open>g\<close> flag: scan from the left; where the pattern
  matches, drop the match and go on behind it. The first argument counts the characters of
  the current match that are still to be dropped.
\<close>

fun removeMatches :: "(string \<Rightarrow> nat option) \<Rightarrow> nat \<Rightarrow> string \<Rightarrow> string" where
  "removeMatches matchLen n [] = []"
| "removeMatches matchLen (Suc n) (c # cs) = removeMatches matchLen n cs"
| "removeMatches matchLen 0 (c # cs) =
     (case matchLen (c # cs) of
        Some (Suc k) \<Rightarrow> removeMatches matchLen k cs
      | _ \<Rightarrow> c # removeMatches matchLen 0 cs)"

definition trim :: "string \<Rightarrow> string" where
  "trim s = rev (dropWhile whiteSpace (rev (dropWhile whiteSpace s)))"

definition sanitize :: "jsval \<Rightarrow> string" where
  "sanitize text =
     (case text of
        JStr s \<Rightarrow> trim (removeMatches tagMatchLen 0 (removeMatches scriptMatchLen 0 s))
      | _ \<Rightarrow> [])"

text \<open>\<open>/(.)\1{10,}/.test(message)\<close>: some character, not a line terminator, 11 times in a row.\<close>

fun repeatedRun :: "string \<Rightarrow> bool" where
  "repeatedRun [] = False"
| "repeatedRun (c # cs) =
     ((\<not> lineTerminator c \<and> length (takeWhile (\<lambda>d. d = c) cs) \<ge> 10) \<or> repeatedRun cs)"

section \<open>AdminMetrics\<close>

text \<open>
  The counters of \<open>this.metrics\<close> that the handlers below write, and
  \<open>messageTimestamps\<close>. The methods \<open>recordMessage\<close> and \<open>recordReport\<close> of this
  class are \<open>metricsRecordMessage\<close> and \<open>metricsRecordReport\<close> here.
\<close>

record adminMetrics =
  totalConnections :: int
  totalMessages :: int
  totalReports :: int
  peakConcurrentUsers :: int
  flaggedUsers :: "userId set"
  messageTimestamps :: "int list"

definition metricsRecordMessage :: "int \<Rightarrow> adminMetrics \<Rightarrow> adminMetrics" where
  "metricsRecordMessage now am =
     am\<lparr>totalMessages := totalMessages am + 1, messageTimestamps := messageTimestamps am @ [now]\<rparr>"

definition metricsRecordReport :: "userId \<Rightarrow> adminMetrics \<Rightarrow> adminMetrics" where
  "metricsRecordReport u am =
     am\<lparr>totalReports := totalReports am + 1, flaggedUsers := insert u (flaggedUsers am)\<rparr>"

definition updateConcurrentUsers :: "int \<Rightarrow> adminMetrics \<Rightarrow> adminMetrics" where
  "updateConcurrentUsers n am =
     (if n > peakConcurrentUsers am then am\<lparr>peakConcurrentUsers := n\<rparr> else am)"

section \<open>Rooms\<close>

text \<open>
  A private or random chat room. The basic server stores \<open>participants\<close> and
  \<open>createdAt\<close> (here \<open>roomCreatedAt\<close>); the matchmaking server adds \<open>id\<close> and
  \<open>type\<close> (here \<open>roomIdent\<close> and \<open>roomType\<close>). \<open>privateChatRooms\<close> is iterated, so it
  is an association list in insertion order.
\<close>

record chatRoom =
  participants :: "userId set"
  roomCreatedAt :: int

record matchRoom = chatRoom +
  roomIdent :: string
  roomType :: string

record publicRoom =
  pubIdent :: string
  pubName :: string
  pubParticipants :: "userId set"
  pubCreatedAt :: int

text \<open>
  \<open>cleanupEmptyRooms\<close> of the basic server, run every 30 s. The loop deletes from the
  map it iterates; each entry is visited once.
\<close>

fun cleanupRoom ::
  "int \<Rightarrow> (string \<times> 'a chatRoom_scheme) list \<Rightarrow> string \<times> 'a chatRoom_scheme
     \<Rightarrow> (string \<times> 'a chatRoom_scheme) list"
where
  "cleanupRoom now acc (chatId, room) =
     (if participants room = {} \<and> now - roomCreatedAt room > 60000
      then AList.delete chatId acc else acc)"

definition cleanupEmptyRooms ::
  "int \<Rightarrow> (string \<times> 'a chatRoom_scheme) list \<Rightarrow> (string \<times> 'a chatRoom_scheme) list"
where
  "cleanupEmptyRooms now rooms = foldl (cleanupRoom now) rooms rooms"

section \<open>The matchmaking server: state, emitted events and handlers\<close>

record user =
  uIdent :: userId
  uName :: string
  uSocketId :: string
  uJoinedAt :: int
  uStatus :: string

text \<open>
  The module-level state. \<open>activeSockets\<close>, \<open>publicRooms\<close> and \<open>privateChatRooms\<close>
  are iterated and are association lists; the other maps are only looked up.
\<close>

record server =
  sessionManager :: sessionManager
  reputationSystem :: reputations
  matchmaking :: matchmaking
  adminMetrics :: adminMetrics
  users :: "userId \<rightharpoonup> user"
  activeSockets :: "(string \<times> userId) list"
  userSockets :: "userId \<rightharpoonup> string set"
  publicRooms :: "(string \<times> publicRoom) list"
  privateChatRooms :: "(string \<times> matchRoom) list"
  typingUsers :: "jsval \<rightharpoonup> userId set"
  rateLimits :: rateLimits

text \<open>
  The variables that the connection closure holds. \<open>currentUserId\<close> is \<open>null\<close> or a
  string \<open>user-...\<close>, \<open>currentSessionToken\<close> is \<open>null\<close> or 64 hex digits, so both are
  truthy exactly when set.
\<close>

record connection =
  connSocketId :: string
  currentUserId :: "userId option"
  currentSessionToken :: "string option"

text \<open>
  What a handler hands to the transport, in order. The object of an acknowledgement is
  kept; of an emitted event the target and the event name are kept.
\<close>

datatype ack =
    AckFail string
  | AckOk
  | AckJoined userId string
  | AckOkText string
  | AckOkMessage messageData

datatype effect =
    Callback ack
  | ToRoom jsval string
  | ToAll string
  | SocketLeave jsval

text \<open>The first occurrences, in order: \<open>Array.from(new Set(xs))\<close>.\<close>

definition uniq :: "'a list \<Rightarrow> 'a list" where
  "uniq xs = rev (remdups (rev xs))"

definition getOnlineUsers :: "server \<Rightarrow> user list" where
  "getOnlineUsers sv = List.map_filter (users sv) (uniq (map snd (activeSockets sv)))"

definition broadcastOnlineUsers :: "server \<Rightarrow> server \<times> effect list" where
  "broadcastOnlineUsers sv =
     (sv\<lparr>adminMetrics := updateConcurrentUsers (int (length (getOnlineUsers sv))) (adminMetrics sv)\<rparr>,
      [ToAll ''onlineUsersUpdate''])"

definition broadcastRoomsList :: "server \<Rightarrow> effect list" where
  "broadcastRoomsList sv = [ToAll ''roomsListUpdate'']"

text \<open>
  Every handler takes the time \<open>now\<close> that \<open>Date.now()\<close> returns while it runs, the
  variables of the connection and the state; it returns the new state and the effects.
  A handler that throws returns \<open>Inl\<close>.
\<close>

type_synonym outcome = "error + (server \<times> effect list)"

text \<open>
  \<open>socket.on('userJoin', (username, callback) => ...)\<close>, the handler that sets the
  variables of the connection. \<open>uuid\<close> is the value drawn by \<open>uuidv4()\<close> for the
  user id and \<open>tok\<close> the session token drawn by \<open>generateSessionToken()\<close>. The
  acknowledgement keeps the user id and the token of the object passed to the callback.
\<close>

definition userJoin ::
  "int \<Rightarrow> string \<Rightarrow> string \<Rightarrow> connection \<Rightarrow> jsval \<Rightarrow> server
     \<Rightarrow> connection \<times> server \<times> effect list"
where
  "userJoin now uuid tok conn uname sv =
     (if \<not> truthy uname \<or> typeof uname \<noteq> ''string''
      then (conn, sv, [Callback (AckFail ''Invalid username'')])
      else
        (let name = take 30 (sanitize uname)
         in if name = [] then (conn, sv, [Callback (AckFail ''Username required'')])
            else
              (let uid = JStr (''user-'' @ uuid);
                   sock = connSocketId conn;
                   sv1 = sv\<lparr>users := (users sv)
                            (uid \<mapsto> \<lparr>uIdent = uid, uName = name, uSocketId = sock,
                                     uJoinedAt = now, uStatus = ''online''\<rparr>)\<rparr>;
                   sv2 = sv1\<lparr>activeSockets := AList.update sock uid (activeSockets sv1)\<rparr>;
                   socks = (case userSockets sv2 uid of None \<Rightarrow> {} | Some ss \<Rightarrow> ss);
                   sv3 = sv2\<lparr>userSockets := (userSockets sv2)(uid \<mapsto> insert sock socks)\<rparr>;
                   sv4 = sv3\<lparr>reputationSystem :=
                               fst (initializeReputation now uid (reputationSystem sv3))\<rparr>;
                   (sm, token) = createSession now tok sock uid name (sessionManager sv4);
                   sv5 = sv4\<lparr>sessionManager := sm\<rparr>;
                   (sv6, effs) = broadcastOnlineUsers sv5
               in (conn\<lparr>currentUserId := Some uid, currentSessionToken := Some token\<rparr>, sv6,
                   Callback (AckJoined uid token) # effs))))"

text \<open>
  \<open>socket.on('sendMessage', (data, callback) => ...)\<close>. \<open>uuid\<close> is the value drawn
  by \<open>uuidv4()\<close> for the message id.
\<close>

definition sendMessage :: "int \<Rightarrow> string \<Rightarrow> connection \<Rightarrow> payload option \<Rightarrow> server \<Rightarrow> outcome" where
  "sendMessage now uuid conn data sv =
     (case validatePayload data [(''roomId'', ''string''), (''message'', ''string'')] of
        Inl e \<Rightarrow> Inl e
      | Inr False \<Rightarrow> Inr (sv, [Callback (AckFail ''Invalid payload'')])
      | Inr True \<Rightarrow>
          (case currentUserId conn of
             None \<Rightarrow> Inr (sv, [Callback (AckFail ''Rate limit exceeded'')])
           | Some uid \<Rightarrow>
               (let (rl1, allowed) = checkRateLimit now uid ''message'' (rateLimits sv);
                    sv1 = sv\<lparr>rateLimits := rl1\<rparr>
                in if \<not> allowed then Inr (sv1, [Callback (AckFail ''Rate limit exceeded'')])
                   else
                     (let d = (case data of Some d \<Rightarrow> d | None \<Rightarrow> []);
                          roomId = field d ''roomId'';
                          rawMessage = field d ''message'';
                          message = take 1000 (sanitize rawMessage)
                      in if message = [] then Inr (sv1, [Callback (AckFail ''Empty message'')])
                         else
                           (case users sv1 uid of
                              None \<Rightarrow> Inr (sv1, [Callback (AckFail ''User not found'')])
                            | Some usr \<Rightarrow>
                                (let isSpam = (length message > 500 \<or> repeatedRun message);
                                     sv2 = sv1\<lparr>reputationSystem :=
                                                 recordMessage now uid isSpam (reputationSystem sv1)\<rparr>
                                 in if isSpam
                                    then Inr (sv2, [Callback (AckFail ''Spam detected'')])
                                    else
                                      (let messageData =
                                             \<lparr>msgId = ''msg-'' @ uuid, msgRoomId = roomId,
                                              senderId = uid, senderName = uName usr,
                                              msgText = message, timestamp = now\<rparr>;
                                           sv3 = (case currentSessionToken conn of
                                                    Some tok \<Rightarrow>
                                                      sv2\<lparr>sessionManager :=
                                                            addMessageToBuffer tok messageData
                                                              (sessionManager sv2)\<rparr>
                                                  | None \<Rightarrow> sv2);
                                           sv4 = sv3\<lparr>adminMetrics :=
                                                       metricsRecordMessage now (adminMetrics sv3)\<rparr>
                                       in Inr (sv4, [ToRoom roomId ''newMessage'',
                                                     Callback (AckOkMessage messageData)]))))))))"

text \<open>\<open>socket.on('reportUser', (data, callback) => ...)\<close>.\<close>

definition reportUser :: "int \<Rightarrow> connection \<Rightarrow> payload option \<Rightarrow> server \<Rightarrow> outcome" where
  "reportUser now conn data sv =
     (case validatePayload data [(''targetUserId'', ''string''), (''reason'', ''string'')] of
        Inl e \<Rightarrow> Inl e
      | Inr False \<Rightarrow> Inr (sv, [Callback (AckFail ''Invalid payload'')])
      | Inr True \<Rightarrow>
          (case currentUserId conn of
             None \<Rightarrow> Inr (sv, [Callback (AckFail ''Rate limit exceeded'')])
           | Some uid \<Rightarrow>
               (let (rl1, allowed) = checkRateLimit now uid ''report'' (rateLimits sv);
                    sv1 = sv\<lparr>rateLimits := rl1\<rparr>
                in if \<not> allowed then Inr (sv1, [Callback (AckFail ''Rate limit exceeded'')])
                   else
                     (let d = (case data of Some d \<Rightarrow> d | None \<Rightarrow> []);
                          targetUserId = field d ''targetUserId'';
                          sv2 = sv1\<lparr>reputationSystem :=
                                      recordReport now targetUserId (reputationSystem sv1)\<rparr>;
                          sv3 = sv2\<lparr>adminMetrics :=
                                      metricsRecordReport targetUserId (adminMetrics sv2)\<rparr>
                      in Inr (sv3, [Callback (AckOkText ''Report submitted. Thank you.'')])))))"

text \<open>\<open>room.participants.delete(currentUserId)\<close> on the room stored under \<open>chatId\<close>.\<close>

definition removeParticipant :: "userId \<Rightarrow> 'a chatRoom_scheme \<Rightarrow> 'a chatRoom_scheme" where
  "removeParticipant uid room = room\<lparr>participants := participants room - {uid}\<rparr>"

text \<open>\<open>socket.on('skipMatch', (chatId, callback) => ...)\<close>.\<close>

definition skipMatch :: "int \<Rightarrow> connection \<Rightarrow> jsval \<Rightarrow> server \<Rightarrow> outcome" where
  "skipMatch now conn chatId sv =
     (case currentUserId conn of
        None \<Rightarrow> Inr (sv, [Callback (AckFail ''Invalid request'')])
      | Some uid \<Rightarrow>
          if \<not> truthy chatId then Inr (sv, [Callback (AckFail ''Invalid request'')])
          else
            (case chatId of
               JStr cid \<Rightarrow>
                 (case map_of (privateChatRooms sv) cid of
                    None \<Rightarrow> Inr (sv, [Callback (AckFail ''Room not found'')])
                  | Some room \<Rightarrow>
                      (let sv1 = sv\<lparr>reputationSystem := recordSkip now uid (reputationSystem sv)\<rparr>;
                           sv2 = sv1\<lparr>matchmaking := endMatch cid (matchmaking sv1)\<rparr>;
                           room1 = removeParticipant uid room;
                           rooms1 = AList.update cid room1 (privateChatRooms sv2);
                           rooms2 = (if participants room1 = {} then AList.delete cid rooms1
                                     else rooms1)
                       in Inr (sv2\<lparr>privateChatRooms := rooms2\<rparr>,
                               [SocketLeave chatId, ToRoom chatId ''partnerSkipped'',
                                Callback AckOk])))
             | _ \<Rightarrow> Inr (sv, [Callback (AckFail ''Room not found'')])))"

text \<open>
  \<open>socket.on('leaveRoom', (roomId) => ...)\<close>. The room is looked up in
  \<open>publicRooms\<close> first, then in \<open>privateChatRooms\<close>.
\<close>

definition leaveRoom :: "connection \<Rightarrow> jsval \<Rightarrow> server \<Rightarrow> outcome" where
  "leaveRoom conn roomId sv =
     (case currentUserId conn of
        None \<Rightarrow> Inr (sv, [])
      | Some uid \<Rightarrow>
          if \<not> truthy roomId then Inr (sv, [])
          else
            (let effects = [SocketLeave roomId, ToRoom roomId ''userLeftRoom'']
                             @ broadcastRoomsList sv
             in case roomId of
                  JStr rid \<Rightarrow>
                    (case map_of (publicRooms sv) rid of
                       Some room \<Rightarrow>
                         Inr (sv\<lparr>publicRooms :=
                                   AList.update rid
                                     (room\<lparr>pubParticipants := pubParticipants room - {uid}\<rparr>)
                                     (publicRooms sv)\<rparr>, effects)
                     | None \<Rightarrow>
                         (case map_of (privateChatRooms sv) rid of
                            Some room \<Rightarrow>
                              Inr (sv\<lparr>privateChatRooms :=
                                        AList.update rid (removeParticipant uid room)
                                          (privateChatRooms sv)\<rparr>, effects)
                          | None \<Rightarrow> Inr (sv, [])))
                | _ \<Rightarrow> Inr (sv, [])))"

text \<open>
  The two loops of the disconnect handler. Each visits the rooms in order; one round works
  on what the rounds before it left: the rooms, the matchmaking object and the effects.
\<close>

fun leavePublicRoom ::
  "userId \<Rightarrow> (string \<times> publicRoom) list \<times> effect list \<Rightarrow> string \<times> publicRoom
     \<Rightarrow> (string \<times> publicRoom) list \<times> effect list"
where
  "leavePublicRoom uid (acc, effs) (roomId, room) =
     (if uid \<in> pubParticipants room
      then (AList.update roomId (room\<lparr>pubParticipants := pubParticipants room - {uid}\<rparr>) acc,
            effs @ [ToRoom (JStr roomId) ''userLeftRoom''])
      else (acc, effs))"

definition leavePublicRooms ::
  "userId \<Rightarrow> (string \<times> publicRoom) list \<Rightarrow> (string \<times> publicRoom) list \<times> effect list"
where
  "leavePublicRooms uid rooms = foldl (leavePublicRoom uid) (rooms, []) rooms"

fun leavePrivateRoom ::
  "userId \<Rightarrow> (string \<times> matchRoom) list \<times> matchmaking \<times> effect list \<Rightarrow> string \<times> matchRoom
     \<Rightarrow> (string \<times> matchRoom) list \<times> matchmaking \<times> effect list"
where
  "leavePrivateRoom uid (acc, mm, effs) (chatId, room) =
     (if uid \<in> participants room
      then
        (let room1 = removeParticipant uid room;
             acc1 = AList.update chatId room1 acc;
             effs1 = effs @ [ToRoom (JStr chatId) ''partnerDisconnected'']
         in if participants room1 = {}
            then (AList.delete chatId acc1, endMatch chatId mm, effs1)
            else (acc1, mm, effs1))
      else (acc, mm, effs))"

definition leavePrivateRooms ::
  "userId \<Rightarrow> (string \<times> matchRoom) list \<Rightarrow> matchmaking
     \<Rightarrow> (string \<times> matchRoom) list \<times> matchmaking \<times> effect list"
where
  "leavePrivateRooms uid rooms mm = foldl (leavePrivateRoom uid) (rooms, mm, []) rooms"

text \<open>\<open>socket.on('disconnect', () => ...)\<close>.\<close>

definition disconnect :: "connection \<Rightarrow> server \<Rightarrow> outcome" where
  "disconnect conn sv =
     (case currentUserId conn of
        None \<Rightarrow> Inr (sv, [])
      | Some uid \<Rightarrow>
          (let sv1 = sv\<lparr>activeSockets := AList.delete (connSocketId conn) (activeSockets sv)\<rparr>;
               sv2 = (case userSockets sv1 uid of
                        None \<Rightarrow> sv1
                      | Some socks \<Rightarrow>
                          (let socks1 = socks - {connSocketId conn}
                           in if socks1 = {}
                              then sv1\<lparr>userSockets := (userSockets sv1)(uid := None)\<rparr>
                              else sv1\<lparr>userSockets := (userSockets sv1)(uid \<mapsto> socks1)\<rparr>));
               sv3 = (case users sv2 uid of
                        None \<Rightarrow> sv2
                      | Some usr \<Rightarrow> sv2\<lparr>users := (users sv2)(uid \<mapsto> usr\<lparr>uStatus := ''offline''\<rparr>)\<rparr>);
               sv4 = sv3\<lparr>matchmaking := removeFromQueue uid (matchmaking sv3)\<rparr>;
               (pubs, effs1) = leavePublicRooms uid (publicRooms sv4);
               sv5 = sv4\<lparr>publicRooms := pubs\<rparr>;
               (privs, mm, effs2) = leavePrivateRooms uid (privateChatRooms sv5) (matchmaking sv5);
               sv6 = sv5\<lparr>privateChatRooms := privs, matchmaking := mm\<rparr>;
               (sv7, effs3) = broadcastOnlineUsers sv6
           in Inr (sv7, effs1 @ effs2 @ effs3 @ broadcastRoomsList sv7)))"

text \<open>The state and the effects of a handler that returned.\<close>

definition stateAfter :: "outcome \<Rightarrow> server option" where
  "stateAfter out = (case out of Inl e \<Rightarrow> None | Inr (sv, effs) \<Rightarrow> Some sv)"

definition effectsOf :: "outcome \<Rightarrow> effect list" where
  "effectsOf out = (case out of Inl e \<Rightarrow> [] | Inr (sv, effs) \<Rightarrow> effs)"

text \<open>A server right after start, without the seeded public rooms.\<close>

definition newServer :: server where
  "newServer =
     \<lparr>sessionManager = newSessionManager, reputationSystem = Map.empty,
      matchmaking = newMatchmaking,
      adminMetrics = \<lparr>totalConnections = 0, totalMessages = 0, totalReports = 0,
                       peakConcurrentUsers = 0, flaggedUsers = {}, messageTimestamps = []\<rparr>,
      users = Map.empty, activeSockets = [], userSockets = Map.empty, publicRooms = [],
      privateChatRooms = [], typingUsers = Map.empty, rateLimits = Map.empty\<rparr>"

text \<open>The reputation record of \<open>u\<close> in the state that a handler left.\<close>

definition reputationAfter :: "outcome \<Rightarrow> userId \<Rightarrow> reputation option" where
  "reputationAfter out u = (case stateAfter out of None \<Rightarrow> None | Some sv \<Rightarrow> reputationSystem sv u)"

text \<open>
  The entry of \<open>privateChatRooms\<close> under \<open>cid\<close> in the state that a handler left:
  \<open>Some None\<close> when the handler returned and the room is not in the map.
\<close>

definition roomAfter :: "outcome \<Rightarrow> string \<Rightarrow> matchRoom option option" where
  "roomAfter out cid = map_option (\<lambda>sv. map_of (privateChatRooms sv) cid) (stateAfter out)"

section \<open>Properties of the reputation system\<close>

lemma getReputation_cases:
  "getReputation now u reps = (reps1, rep) \<Longrightarrow>
     (reps u = Some rep \<and> reps1 = reps) \<or>
     (reps u = None \<and> rep = freshReputation now \<and> reps1 = reps(u \<mapsto> rep))"
  by (auto simp: getReputation_def initializeReputation_def split: option.splits)

lemma getReputation_score_ok:
  assumes "score_ok reps" and "getReputation now u reps = (reps1, rep)"
  shows "score_ok reps1 \<and> 0 \<le> score rep \<and> score rep \<le> 100"
  using getReputation_cases [OF assms(2)] assms(1)
  by (auto simp: score_ok_def freshReputation_def INITIAL_SCORE_def split: if_splits)

lemma score_ok_upd:
  "score_ok reps \<Longrightarrow> 0 \<le> score rep \<Longrightarrow> score rep \<le> 100 \<Longrightarrow> score_ok (reps(u \<mapsto> rep))"
  by (simp add: score_ok_def)

lemma recordMessage_score_ok: "score_ok reps \<Longrightarrow> score_ok (recordMessage now u isSpam reps)"
proof -
  assume ok: "score_ok reps"
  obtain reps1 rep where g: "getReputation now u reps = (reps1, rep)"
    by (cases "getReputation now u reps")
  from getReputation_score_ok [OF ok g] show ?thesis
    by (auto simp: recordMessage_def g Let_def intro!: score_ok_upd)
qed

lemma recordSkip_score_ok: "score_ok reps \<Longrightarrow> score_ok (recordSkip now u reps)"
proof -
  assume ok: "score_ok reps"
  obtain reps1 rep where g: "getReputation now u reps = (reps1, rep)"
    by (cases "getReputation now u reps")
  from getReputation_score_ok [OF ok g] show ?thesis
    by (auto simp: recordSkip_def g intro!: score_ok_upd)
qed

lemma recordReport_score_ok: "score_ok reps \<Longrightarrow> score_ok (recordReport now u reps)"
proof -
  assume ok: "score_ok reps"
  obtain reps1 rep where g: "getReputation now u reps = (reps1, rep)"
    by (cases "getReputation now u reps")
  from getReputation_score_ok [OF ok g] show ?thesis
    by (auto simp: recordReport_def g intro!: score_ok_upd)
qed

lemma recordResponseTime_score_ok:
  "score_ok reps \<Longrightarrow> score_ok (recordResponseTime now u ms reps)"
proof -
  assume ok: "score_ok reps"
  obtain reps1 rep where g: "getReputation now u reps = (reps1, rep)"
    by (cases "getReputation now u reps")
  from getReputation_score_ok [OF ok g] show ?thesis
    by (auto simp: recordResponseTime_def g Let_def intro!: score_ok_upd)
qed

lemma initializeReputation_score_ok:
  "score_ok reps \<Longrightarrow> score_ok (fst (initializeReputation now u reps))"
  by (auto simp: initializeReputation_def freshReputation_def INITIAL_SCORE_def
           split: option.splits intro!: score_ok_upd)

lemma decayReputations_score_ok: "score_ok reps \<Longrightarrow> score_ok (decayReputations now reps)"
  unfolding score_ok_def decayReputations_def decayOne_def INITIAL_SCORE_def
  by (auto split: option.splits if_splits)

lemma rep_step_score_ok: "score_ok reps \<Longrightarrow> score_ok (rep_step reps e)"
proof (cases e)
  case (Pair now op)
  assume "score_ok reps"
  then show ?thesis unfolding Pair
    by (cases op)
       (simp_all add: initializeReputation_score_ok recordMessage_score_ok recordSkip_score_ok
          recordReport_score_ok recordResponseTime_score_ok decayReputations_score_ok)
qed

lemma rep_run_score_ok: "score_ok reps \<Longrightarrow> score_ok (rep_run reps ops)"
  unfolding rep_run_def
  by (induction ops arbitrary: reps) (simp_all add: rep_step_score_ok)

lemma score_ok_empty: "score_ok Map.empty"
  by (simp add: score_ok_def)

text \<open>
  Claim C1. Start with no reputation record at all and run any finite sequence of
  \<open>initializeReputation\<close>, \<open>recordMessage\<close> (spam or not), \<open>recordSkip\<close>,
  \<open>recordReport\<close>, \<open>recordResponseTime\<close> and \<open>decayReputations\<close> calls, on any users and
  at any times. After every prefix of the sequence, each record that exists has a score
  between 0 and 100; a record is created with score 100.
\<close>

theorem C1_score_bounded:
  "rep_run Map.empty (take n ops) u = Some rep \<Longrightarrow> 0 \<le> score rep \<and> score rep \<le> 100"
proof -
  assume h: "rep_run Map.empty (take n ops) u = Some rep"
  have "score_ok (rep_run Map.empty (take n ops))"
    by (rule rep_run_score_ok [OF score_ok_empty])
  with h show ?thesis
    by (simp add: score_ok_def)
qed

theorem C1_score_bounded_witness:
  "rep_run Map.empty
     (take 3 [(5, RecordReport (JStr ''u'')), (6, RecordMessage (JStr ''u'') True),
              (7, DecayReputations), (8, RecordSkip (JStr ''u''))]) (JStr ''u'')
     = Some \<lparr>score = 81, messageCount = 1, avgResponseTime = 0, skipCount = 0,
               reportCount = 1, spamScore = 9, lastActivity = 6, createdAt = 5\<rparr>
   \<and> (0::int) \<le> 81 \<and> (81::int) \<le> 100"
proof -
  have h: "rep_run Map.empty
     (take 3 [(5, RecordReport (JStr ''u'')), (6, RecordMessage (JStr ''u'') True),
              (7, DecayReputations), (8, RecordSkip (JStr ''u''))]) (JStr ''u'')
     = Some \<lparr>score = 81, messageCount = 1, avgResponseTime = 0, skipCount = 0,
               reportCount = 1, spamScore = 9, lastActivity = 6, createdAt = 5\<rparr>"
    by (simp add: rep_run_def recordReport_def recordMessage_def decayReputations_def
          decayOne_def getReputation_def initializeReputation_def freshReputation_def
          INITIAL_SCORE_def)
  from C1_score_bounded [OF h] h show ?thesis
    by simp
qed

section \<open>Properties of the session manager\<close>

lemma deleteSession_lookup:
  "map_of (sessions (deleteSession tok sm)) k = (if k = tok then None else map_of (sessions sm) k)"
  by (simp add: deleteSession_def delete_conv' split: option.splits)

lemma sweep_fold_lookup:
  "map_of (sessions (foldl (\<lambda>acc (tok, sess).
        if t - sessLastActivity sess > SESSION_TTL then deleteSession tok acc else acc) sm xs)) k = None
   \<or> map_of (sessions (foldl (\<lambda>acc (tok, sess).
        if t - sessLastActivity sess > SESSION_TTL then deleteSession tok acc else acc) sm xs)) k
      = map_of (sessions sm) k"
proof (induction xs arbitrary: sm)
  case Nil
  then show ?case by simp
next
  case (Cons x xs)
  obtain tok sess where x: "x = (tok, sess)" by (cases x)
  show ?case
  proof (cases "t - sessLastActivity sess > SESSION_TTL")
    case True
    with Cons [of "deleteSession tok sm"] show ?thesis
      by (auto simp: x deleteSession_lookup split: if_splits)
  next
    case False
    with Cons [of sm] show ?thesis
      by (simp add: x)
  qed
qed

lemma cleanup_lookup:
  "map_of (sessions (cleanupExpiredSessions t sm)) k = None
   \<or> map_of (sessions (cleanupExpiredSessions t sm)) k = map_of (sessions sm) k"
  unfolding cleanupExpiredSessions_def by (rule sweep_fold_lookup)

lemma getSession_expired:
  assumes "map_of (sessions sm) tok = None \<or> map_of (sessions sm) tok = Some sess"
    and "now - sessLastActivity sess > SESSION_TTL"
  shows "getSession now tok sm = None"
  using assms by (auto simp: getSession_def)

text \<open>
  Claim C2. A stored session whose last activity lies more than the TTL of 60000 ms before
  \<open>now\<close> is not found: \<open>getSession\<close> returns \<open>null\<close>, and \<open>reconnectSession\<close> returns
  \<open>null\<close> and changes nothing. This holds on the state as it is and on the state
  left by a \<open>cleanupExpiredSessions\<close> sweep run at any time \<open>t\<close>.
\<close>

theorem C2_expired_session_not_found:
  assumes "map_of (sessions sm) tok = Some sess"
    and "now - sessLastActivity sess > SESSION_TTL"
  shows "getSession now tok sm = None
       \<and> reconnectSession now tok newSocketId sm = (sm, None)
       \<and> getSession now tok (cleanupExpiredSessions t sm) = None
       \<and> reconnectSession now tok newSocketId (cleanupExpiredSessions t sm)
           = (cleanupExpiredSessions t sm, None)"
proof -
  have a: "getSession now tok sm = None"
    using assms by (intro getSession_expired) auto
  have "map_of (sessions (cleanupExpiredSessions t sm)) tok = None
        \<or> map_of (sessions (cleanupExpiredSessions t sm)) tok = Some sess"
    using cleanup_lookup [of t sm tok] assms(1) by simp
  then have b: "getSession now tok (cleanupExpiredSessions t sm) = None"
    using assms(2) by (rule getSession_expired)
  from a b show ?thesis
    by (simp add: reconnectSession_def)
qed

theorem C2_expired_session_not_found_witness:
  "getSession 60001 ''t1'' (fst (createSession 0 ''t1'' ''s1'' (JStr ''u1'') ''ann'' newSessionManager)) = None
   \<and> reconnectSession 60001 ''t1'' ''s2'' (fst (createSession 0 ''t1'' ''s1'' (JStr ''u1'') ''ann'' newSessionManager))
       = (fst (createSession 0 ''t1'' ''s1'' (JStr ''u1'') ''ann'' newSessionManager), None)"
proof -
  let ?sm = "fst (createSession 0 ''t1'' ''s1'' (JStr ''u1'') ''ann'' newSessionManager)"
  let ?sess = "\<lparr>token = ''t1'', socketId = ''s1'', userId = JStr ''u1'', username = ''ann'',
                  sessCreatedAt = 0, sessLastActivity = 0, currentRoom = None,
                  currentMatch = None, messageBuffer = [], reconnectCount = 0\<rparr>"
  have h1: "map_of (sessions ?sm) ''t1'' = Some ?sess"
    by (simp add: createSession_def newSessionManager_def)
  have h2: "60001 - sessLastActivity ?sess > SESSION_TTL"
    by (simp add: SESSION_TTL_def)
  from C2_expired_session_not_found [OF h1 h2, of "''s2''" 0] show ?thesis
    by simp
qed

lemma addMessageToBuffer_bufferOf:
  "bufferOf (addMessageToBuffer t m sm) k =
     (if k = t then map_option (\<lambda>b. if length (b @ [m]) > MESSAGE_BUFFER_SIZE then tl (b @ [m]) else b @ [m]) (bufferOf sm k)
      else bufferOf sm k)"
  by (auto simp: addMessageToBuffer_def bufferOf_def update_conv' Let_def split: option.splits)

lemma last20_step:
  "length b \<le> 20 \<Longrightarrow>
   (if length (b @ [m]) > 20 then tl (b @ [m]) else b @ [m]) = drop (length (b @ [m]) - 20) (b @ [m])"
  by (cases b) (auto simp: drop_Cons' )

lemma last20_absorb:
  "drop (length (drop (length xs - 20) xs @ ys) - 20) (drop (length xs - 20) xs @ ys)
     = drop (length (xs @ ys) - 20) (xs @ (ys::'a list))"
proof (cases "length xs \<le> 20")
  case True
  then show ?thesis by simp
next
  case False
  then have k: "length xs - (length xs - 20) = 20" by arith
  have e1: "length ys + (length xs - 20) = length xs + length ys - 20" using False by arith
  have e2: "length xs + length ys - 20 - length xs = length ys - 20" by arith
  show ?thesis
    by (simp add: k e1 e2)
qed

lemma addMessages_bufferOf:
  "bufferOf sm tok = Some b \<Longrightarrow> length b \<le> 20 \<Longrightarrow>
   bufferOf (addMessages sm calls) tok
     = Some (drop (length (b @ sentTo tok calls) - 20) (b @ sentTo tok calls))"
proof (induction calls arbitrary: sm b)
  case Nil
  then show ?case by (simp add: addMessages_def sentTo_def)
next
  case (Cons c calls)
  obtain t m where c: "c = (t, m)" by (cases c)
  show ?case
  proof (cases "t = tok")
    case False
    with Cons.prems have "bufferOf (addMessageToBuffer t m sm) tok = Some b"
      by (simp add: addMessageToBuffer_bufferOf)
    from Cons.IH [OF this Cons.prems(2)] False show ?thesis
      by (simp add: c addMessages_def sentTo_def)
  next
    case True
    let ?b = "drop (length (b @ [m]) - 20) (b @ [m])"
    have "bufferOf (addMessageToBuffer t m sm) tok = Some ?b"
      using Cons.prems True last20_step [OF Cons.prems(2), of m]
      by (simp add: addMessageToBuffer_bufferOf MESSAGE_BUFFER_SIZE_def)
    moreover have "length ?b \<le> 20" by simp
    ultimately have "bufferOf (addMessages (addMessageToBuffer t m sm) calls) tok
       = Some (drop (length (?b @ sentTo tok calls) - 20) (?b @ sentTo tok calls))"
      by (rule Cons.IH)
    also have "drop (length (?b @ sentTo tok calls) - 20) (?b @ sentTo tok calls)
        = drop (length ((b @ [m]) @ sentTo tok calls) - 20) ((b @ [m]) @ sentTo tok calls)"
      by (rule last20_absorb)
    finally show ?thesis using True
      by (simp add: c addMessages_def sentTo_def)
  qed
qed

lemma createSession_bufferOf:
  "bufferOf (fst (createSession now tok sock uid uname sm0)) tok = Some []"
  by (simp add: createSession_def bufferOf_def update_conv' Let_def)

text \<open>
  Claim C9. After \<open>createSession\<close> and any sequence of \<open>addMessageToBuffer\<close> calls (for
  this token or others), the buffer of the session holds the last 20 messages appended for
  its token, in append order, hence never more than 20; when 20 messages have been
  appended, one more evicts exactly the oldest.
\<close>

theorem C9_buffer_keeps_last_20:
  "bufferOf (addMessages (fst (createSession now tok sock uid uname sm0)) calls) tok
     = Some (drop (length (sentTo tok calls) - 20) (sentTo tok calls))
   \<and> bufferCount (addMessages (fst (createSession now tok sock uid uname sm0)) calls) tok \<le> 20
   \<and> (length (sentTo tok calls) = 20 \<longrightarrow>
        bufferOf (addMessageToBuffer tok m
                   (addMessages (fst (createSession now tok sock uid uname sm0)) calls)) tok
          = Some (tl (sentTo tok calls) @ [m]))"
proof -
  let ?sm = "fst (createSession now tok sock uid uname sm0)"
  have eq: "bufferOf (addMessages ?sm calls) tok
     = Some (drop (length (sentTo tok calls) - 20) (sentTo tok calls))"
    using addMessages_bufferOf [where calls = calls and b = "[]", OF createSession_bufferOf] by simp
  have len: "bufferCount (addMessages ?sm calls) tok \<le> 20"
    by (simp add: bufferCount_def eq)
  have evict: "bufferOf (addMessageToBuffer tok m (addMessages ?sm calls)) tok
          = Some (tl (sentTo tok calls) @ [m])" if "length (sentTo tok calls) = 20"
  proof -
    from that have "sentTo tok calls \<noteq> []" by auto
    with that show ?thesis
      by (simp add: addMessageToBuffer_bufferOf eq MESSAGE_BUFFER_SIZE_def)
  qed
  from eq len evict show ?thesis by blast
qed

theorem C9_buffer_keeps_last_20_witness:
  "length (sentTo ''t1'' (map (\<lambda>n. (''t1'', \<lparr>msgId = ''m'', msgRoomId = JStr ''r'', senderId = JStr ''u1'',
       senderName = ''ann'', msgText = ''hi'', timestamp = int n\<rparr>)) [0..<20])) = 20
   \<and> bufferOf (addMessageToBuffer ''t1'' \<lparr>msgId = ''m'', msgRoomId = JStr ''r'', senderId = JStr ''u1'',
                  senderName = ''ann'', msgText = ''hi'', timestamp = 20\<rparr>
         (addMessages (fst (createSession 0 ''t1'' ''s1'' (JStr ''u1'') ''ann'' newSessionManager))
            (map (\<lambda>n. (''t1'', \<lparr>msgId = ''m'', msgRoomId = JStr ''r'', senderId = JStr ''u1'',
       senderName = ''ann'', msgText = ''hi'', timestamp = int n\<rparr>)) [0..<20]))) ''t1''
     = Some (map (\<lambda>n. \<lparr>msgId = ''m'', msgRoomId = JStr ''r'', senderId = JStr ''u1'',
       senderName = ''ann'', msgText = ''hi'', timestamp = int n\<rparr>) [1..<21])"
proof -
  let ?M = "\<lambda>n. \<lparr>msgId = ''m'', msgRoomId = JStr ''r'', senderId = JStr ''u1'',
       senderName = ''ann'', msgText = ''hi'', timestamp = int n\<rparr>"
  let ?calls = "map (\<lambda>n. (''t1'', ?M n)) [0..<20]"
  have s: "sentTo ''t1'' ?calls = map ?M [0..<20]"
    by (simp add: sentTo_def comp_def)
  have h: "length (sentTo ''t1'' ?calls) = 20"
    by (simp add: s)
  have t: "tl (map ?M [0..<20]) @ [?M 20] = map ?M [1..<21]"
  proof -
    have a: "[0..<20] = 0 # [1..<20]" by (simp add: upt_conv_Cons)
    have b: "[1..<21] = [1..<20] @ [20]" using upt_Suc_append [of 1 20] by simp
    show ?thesis unfolding a b by simp
  qed
  from C9_buffer_keeps_last_20 [of 0 "''t1''" "''s1''" "JStr ''u1''" "''ann''" newSessionManager ?calls "?M 20"]
    h s t show ?thesis
    by simp
qed

section \<open>Properties of the rate limiter\<close>

lemmas rl_consts = MESSAGE_INTERVAL_def MESSAGE_BURST_def TYPING_INTERVAL_def REPORT_INTERVAL_def

lemma burst_first:
  assumes "rl u = None \<or> (\<exists>l. rl u = Some l \<and> t - windowStart l > 10000)"
  shows "snd (checkRateLimit t u ''message'' rl) = True
       \<and> burstState (fst (checkRateLimit t u ''message'' rl)) u 1 t t"
  using assms
  by (auto simp: checkRateLimit_def burstState_def freshLimits_def rl_consts Let_def)

lemma burst_next:
  assumes "burstState rl u c w lm" and "c < 5" and "t - w \<le> 10000"
  shows "snd (checkRateLimit t u ''message'' rl) = True
       \<and> burstState (fst (checkRateLimit t u ''message'' rl)) u (c + 1) w t"
  using assms
  by (auto simp: checkRateLimit_def burstState_def rl_consts Let_def split: option.splits)

lemma burst_full:
  assumes "burstState rl u 5 w lm" and "t - w \<le> 10000"
  shows "snd (checkRateLimit t u ''message'' rl) = (\<not> t - lm < 500)"
  using assms
  by (auto simp: checkRateLimit_def burstState_def rl_consts Let_def split: option.splits)

lemma checkRateLimits_Cons:
  "snd (checkRateLimits u type rl (t # ts))
     = snd (checkRateLimit t u type rl) # snd (checkRateLimits u type (fst (checkRateLimit t u type rl)) ts)"
  by (simp add: split_beta Let_def)

text \<open>
  Claim C7, as amended. Six message evaluations for one user whose times lie within one
  second of each other, the first on a fresh entry or on an expired window: the first five
  are allowed, and the sixth is denied exactly when it comes less than 500 ms after the
  fifth.
\<close>

theorem C7_sixth_denied_iff_close:
  assumes within: "\<forall>s \<in> set [t1, t2, t3, t4, t5, t6]. \<forall>t \<in> set [t1, t2, t3, t4, t5, t6]. t - s \<le> 1000"
    and start: "rl u = None \<or> (\<exists>l. rl u = Some l \<and> t1 - windowStart l > 10000)"
  shows "snd (checkRateLimits u ''message'' rl [t1, t2, t3, t4, t5, t6])
           = [True, True, True, True, True, \<not> t6 - t5 < MESSAGE_INTERVAL]"
proof -
  let ?c = "\<lambda>t r. checkRateLimit t u ''message'' r"
  define r1 where "r1 = fst (?c t1 rl)"
  define r2 where "r2 = fst (?c t2 r1)"
  define r3 where "r3 = fst (?c t3 r2)"
  define r4 where "r4 = fst (?c t4 r3)"
  define r5 where "r5 = fst (?c t5 r4)"
  from within have w: "t2 - t1 \<le> 10000" "t3 - t1 \<le> 10000" "t4 - t1 \<le> 10000"
    "t5 - t1 \<le> 10000" "t6 - t1 \<le> 10000"
    by auto
  have s1: "snd (?c t1 rl) = True" "burstState r1 u 1 t1 t1"
    using burst_first [of rl u t1, OF start] by (simp_all add: r1_def)
  have s2: "snd (?c t2 r1) = True" "burstState r2 u 2 t1 t2"
    using burst_next [OF s1(2) _ w(1)] by (simp_all add: r2_def)
  have s3: "snd (?c t3 r2) = True" "burstState r3 u 3 t1 t3"
    using burst_next [OF s2(2) _ w(2)] by (simp_all add: r3_def)
  have s4: "snd (?c t4 r3) = True" "burstState r4 u 4 t1 t4"
    using burst_next [OF s3(2) _ w(3)] by (simp_all add: r4_def)
  have s5: "snd (?c t5 r4) = True" "burstState r5 u 5 t1 t5"
    using burst_next [OF s4(2) _ w(4)] by (simp_all add: r5_def)
  have s6: "snd (?c t6 r5) = (\<not> t6 - t5 < 500)"
    using burst_full [OF s5(2) w(5)] .
  show ?thesis
    unfolding checkRateLimits_Cons
    using s1(1) s2(1) s3(1) s4(1) s5(1) s6
    by (simp add: r1_def r2_def r3_def r4_def r5_def MESSAGE_INTERVAL_def)
qed

theorem C7_sixth_denied_iff_close_witness:
  "snd (checkRateLimits (JStr ''u'') ''message'' Map.empty [1000, 1100, 1200, 1300, 1400, 1500])
     = [True, True, True, True, True, False]"
proof -
  have w: "\<forall>s \<in> set [1000, 1100, 1200, 1300, 1400, 1500::int].
             \<forall>t \<in> set [1000, 1100, 1200, 1300, 1400, 1500]. t - s \<le> 1000"
    by simp
  have st: "(Map.empty :: rateLimits) (JStr ''u'') = None
            \<or> (\<exists>l. (Map.empty :: rateLimits) (JStr ''u'') = Some l \<and> 1000 - windowStart l > 10000)"
    by simp
  from C7_sixth_denied_iff_close [of 1000 1100 1200 1300 1400 1500 Map.empty "JStr ''u''", OF w st] show ?thesis
    by (simp add: MESSAGE_INTERVAL_def)
qed

text \<open>
  The claim as stated fails: these six times lie within one second (the last is 600 ms
  after the first), the window is fresh, and the sixth evaluation, 596 ms after the fifth,
  is allowed.
\<close>

theorem C7_counterexample:
  "(1600::int) - 1000 \<le> 1000
   \<and> snd (checkRateLimits (JStr ''u'') ''message'' Map.empty [1000, 1001, 1002, 1003, 1004, 1600])
     = [True, True, True, True, True, True]"
  by (simp add: checkRateLimit_def freshLimits_def rl_consts Let_def)

lemma checkRateLimit_frame:
  "v \<noteq> u \<Longrightarrow> fst (checkRateLimit now u type rl) v = rl v"
  by (simp add: checkRateLimit_def Let_def)

lemma checkRateLimit_denied:
  "\<not> snd (checkRateLimit now u type rl) \<Longrightarrow>
   fst (checkRateLimit now u type rl) u = Some (limitsOf now rl u)"
  by (auto simp: checkRateLimit_def limitsOf_def Let_def rl_consts freshLimits_def
        split: if_splits option.splits)

lemma checkRateLimit_allowed_message:
  "snd (checkRateLimit now u ''message'' rl) \<Longrightarrow>
   fst (checkRateLimit now u ''message'' rl) u
     = Some (if now - windowStart (limitsOf now rl u) > 10000
             then (limitsOf now rl u)\<lparr>lastMessage := now, windowCount := 1, windowStart := now\<rparr>
             else (limitsOf now rl u)\<lparr>lastMessage := now,
                                       windowCount := windowCount (limitsOf now rl u) + 1\<rparr>)"
  by (auto simp: checkRateLimit_def limitsOf_def Let_def split: if_splits)

lemma checkRateLimit_allowed_typing:
  "snd (checkRateLimit now u ''typing'' rl) \<Longrightarrow>
   fst (checkRateLimit now u ''typing'' rl) u = Some ((limitsOf now rl u)\<lparr>lastTyping := now\<rparr>)"
  by (auto simp: checkRateLimit_def limitsOf_def Let_def split: if_splits)

lemma checkRateLimit_allowed_report:
  "snd (checkRateLimit now u ''report'' rl) \<Longrightarrow>
   fst (checkRateLimit now u ''report'' rl) u = Some ((limitsOf now rl u)\<lparr>lastReport := now\<rparr>)"
  by (auto simp: checkRateLimit_def limitsOf_def Let_def split: if_splits)

lemma checkRateLimit_other_kind:
  "type \<noteq> ''message'' \<Longrightarrow> type \<noteq> ''typing'' \<Longrightarrow> type \<noteq> ''report'' \<Longrightarrow>
   checkRateLimit now u type rl = (rl(u \<mapsto> limitsOf now rl u), True)"
  by (simp add: checkRateLimit_def limitsOf_def Let_def)

lemma checkRateLimit_verdict:
  "snd (checkRateLimit now u type rl)
     = (if type = ''message''
        then \<not> (now - windowStart (limitsOf now rl u) \<le> 10000
                \<and> windowCount (limitsOf now rl u) \<ge> 5
                \<and> now - lastMessage (limitsOf now rl u) < 500)
        else if type = ''typing'' then \<not> now - lastTyping (limitsOf now rl u) < 1000
        else if type = ''report'' then \<not> now - lastReport (limitsOf now rl u) < 10000
        else True)"
  by (auto simp: checkRateLimit_def limitsOf_def Let_def rl_consts)

text \<open>
  Claim C8, as amended. A \<open>checkRateLimit\<close> call changes nothing but the calling
  user's entry of \<open>rateLimits\<close>. A denied call leaves that entry as it was (a first
  call stores the fresh entry): neither the count nor a last-event time is written, so a
  denied retry does not reset the window. An allowed call writes the fields of its own
  kind and no other: a message call sets \<open>lastMessage\<close> to the time of the call and
  adds one to the window count, after restarting the window (count 0, start at the time of
  the call) when more than 10000 ms had passed since its start; a typing call sets
  \<open>lastTyping\<close> only; a report call sets \<open>lastReport\<close> only; a call of any other kind
  is allowed and writes nothing. The verdict is deny exactly when, for a message, the
  unexpired window already counts at least 5 and the last allowed message is less than 500 ms ago,
  for typing, the last allowed typing is less than 1000 ms ago, and for a report, the last
  allowed report is less than 10000 ms ago.
\<close>

theorem C8_only_allowed_calls_update:
  assumes "checkRateLimit now u type rl = (rl', ok)"
  shows "(\<forall>v. v \<noteq> u \<longrightarrow> rl' v = rl v)
       \<and> (\<not> ok \<longrightarrow> rl' u = Some (limitsOf now rl u))
       \<and> (\<not> ok \<and> rl u \<noteq> None \<longrightarrow> rl' = rl)
       \<and> (ok \<and> type = ''message'' \<longrightarrow>
            rl' u = Some (if now - windowStart (limitsOf now rl u) > 10000
                          then (limitsOf now rl u)
                                 \<lparr>lastMessage := now, windowCount := 1, windowStart := now\<rparr>
                          else (limitsOf now rl u)
                                 \<lparr>lastMessage := now,
                                  windowCount := windowCount (limitsOf now rl u) + 1\<rparr>))
       \<and> (ok \<and> type = ''typing'' \<longrightarrow> rl' u = Some ((limitsOf now rl u)\<lparr>lastTyping := now\<rparr>))
       \<and> (ok \<and> type = ''report'' \<longrightarrow> rl' u = Some ((limitsOf now rl u)\<lparr>lastReport := now\<rparr>))
       \<and> (type \<noteq> ''message'' \<and> type \<noteq> ''typing'' \<and> type \<noteq> ''report'' \<longrightarrow>
            ok \<and> rl' u = Some (limitsOf now rl u))
       \<and> ok = (if type = ''message''
                then \<not> (now - windowStart (limitsOf now rl u) \<le> 10000
                        \<and> windowCount (limitsOf now rl u) \<ge> 5
                        \<and> now - lastMessage (limitsOf now rl u) < 500)
                else if type = ''typing'' then \<not> now - lastTyping (limitsOf now rl u) < 1000
                else if type = ''report'' then \<not> now - lastReport (limitsOf now rl u) < 10000
                else True)"
proof -
  have f: "\<forall>v. v \<noteq> u \<longrightarrow> rl' v = rl v"
    using checkRateLimit_frame [of _ u now type rl] assms by simp
  have d: "rl' u = Some (limitsOf now rl u)" if "\<not> ok"
    using checkRateLimit_denied [of now u type rl] assms that by simp
  have e: "rl' = rl" if "\<not> ok" "rl u \<noteq> None"
  proof
    fix v
    show "rl' v = rl v"
    proof (cases "v = u")
      case True
      with d [OF that(1)] that(2) show ?thesis
        by (auto simp: limitsOf_def)
    next
      case False
      with f show ?thesis by simp
    qed
  qed
  have m: "rl' u = Some (if now - windowStart (limitsOf now rl u) > 10000
                          then (limitsOf now rl u)
                                 \<lparr>lastMessage := now, windowCount := 1, windowStart := now\<rparr>
                          else (limitsOf now rl u)
                                 \<lparr>lastMessage := now,
                                  windowCount := windowCount (limitsOf now rl u) + 1\<rparr>)"
    if "ok" "type = ''message''"
    using checkRateLimit_allowed_message [of now u rl] assms that by simp
  have t: "rl' u = Some ((limitsOf now rl u)\<lparr>lastTyping := now\<rparr>)" if "ok" "type = ''typing''"
    using checkRateLimit_allowed_typing [of now u rl] assms that by simp
  have r: "rl' u = Some ((limitsOf now rl u)\<lparr>lastReport := now\<rparr>)" if "ok" "type = ''report''"
    using checkRateLimit_allowed_report [of now u rl] assms that by simp
  have o: "ok \<and> rl' u = Some (limitsOf now rl u)"
    if "type \<noteq> ''message''" "type \<noteq> ''typing''" "type \<noteq> ''report''"
    using checkRateLimit_other_kind [OF that, of now u rl] assms by auto
  have v: "ok = (if type = ''message''
                then \<not> (now - windowStart (limitsOf now rl u) \<le> 10000
                        \<and> windowCount (limitsOf now rl u) \<ge> 5
                        \<and> now - lastMessage (limitsOf now rl u) < 500)
                else if type = ''typing'' then \<not> now - lastTyping (limitsOf now rl u) < 1000
                else if type = ''report'' then \<not> now - lastReport (limitsOf now rl u) < 10000
                else True)"
    using checkRateLimit_verdict [of now u type rl] assms by simp
  from f d e m t r o v show ?thesis by blast
qed

text \<open>
  The claim as stated fails: with five messages counted and the last one at 1004, a call
  at 1100 is denied and leaves the count at 5 and the last message time at 1004.
\<close>

theorem C8_counterexample:
  "checkRateLimit 1100 (JStr ''u'') ''message''
       [JStr ''u'' \<mapsto> \<lparr>lastMessage = 1004, windowCount = 5, lastTyping = 0, lastReport = 0,
                          windowStart = 1000\<rparr>]
     = ([JStr ''u'' \<mapsto> \<lparr>lastMessage = 1004, windowCount = 5, lastTyping = 0, lastReport = 0,
                          windowStart = 1000\<rparr>], False)"
  by (simp add: checkRateLimit_def rl_consts Let_def)

theorem C8_only_allowed_calls_update_witness:
  "fst (checkRateLimit 1100 (JStr ''u'') ''message''
         [JStr ''u'' \<mapsto> \<lparr>lastMessage = 1004, windowCount = 5, lastTyping = 0, lastReport = 0,
                          windowStart = 1000\<rparr>])
     = [JStr ''u'' \<mapsto> \<lparr>lastMessage = 1004, windowCount = 5, lastTyping = 0, lastReport = 0,
                          windowStart = 1000\<rparr>]
   \<and> fst (checkRateLimit 1600 (JStr ''u'') ''message''
         [JStr ''u'' \<mapsto> \<lparr>lastMessage = 1004, windowCount = 5, lastTyping = 0, lastReport = 0,
                          windowStart = 1000\<rparr>]) (JStr ''u'')
     = Some \<lparr>lastMessage = 1600, windowCount = 6, lastTyping = 0, lastReport = 0,
            windowStart = 1000\<rparr>
   \<and> fst (checkRateLimit 20000 (JStr ''u'') ''message''
         [JStr ''u'' \<mapsto> \<lparr>lastMessage = 1004, windowCount = 5, lastTyping = 0, lastReport = 0,
                          windowStart = 1000\<rparr>]) (JStr ''u'')
     = Some \<lparr>lastMessage = 20000, windowCount = 1, lastTyping = 0, lastReport = 0,
            windowStart = 20000\<rparr>
   \<and> fst (checkRateLimit 1600 (JStr ''u'') ''typing''
         [JStr ''u'' \<mapsto> \<lparr>lastMessage = 1004, windowCount = 5, lastTyping = 0, lastReport = 0,
                          windowStart = 1000\<rparr>]) (JStr ''u'')
     = Some \<lparr>lastMessage = 1004, windowCount = 5, lastTyping = 1600, lastReport = 0,
            windowStart = 1000\<rparr>
   \<and> fst (checkRateLimit 16000 (JStr ''u'') ''report''
         [JStr ''u'' \<mapsto> \<lparr>lastMessage = 1004, windowCount = 5, lastTyping = 0, lastReport = 0,
                          windowStart = 1000\<rparr>]) (JStr ''u'')
     = Some \<lparr>lastMessage = 1004, windowCount = 5, lastTyping = 0, lastReport = 16000,
            windowStart = 1000\<rparr>
   \<and> fst (checkRateLimit 1600 (JStr ''u'') ''join''
         [JStr ''u'' \<mapsto> \<lparr>lastMessage = 1004, windowCount = 5, lastTyping = 0, lastReport = 0,
                          windowStart = 1000\<rparr>]) (JStr ''u'')
     = Some \<lparr>lastMessage = 1004, windowCount = 5, lastTyping = 0, lastReport = 0,
            windowStart = 1000\<rparr>
   \<and> snd (checkRateLimit 1600 (JStr ''u'') ''join''
         [JStr ''u'' \<mapsto> \<lparr>lastMessage = 1004, windowCount = 5, lastTyping = 0, lastReport = 0,
                          windowStart = 1000\<rparr>]) = True
   \<and> fst (checkRateLimit 1600 (JStr ''u'') ''typing''
         [JStr ''u'' \<mapsto> \<lparr>lastMessage = 1004, windowCount = 5, lastTyping = 0, lastReport = 0,
                          windowStart = 1000\<rparr>]) (JStr ''v'') = None"
proof -
  let ?rl = "[JStr ''u'' \<mapsto> \<lparr>lastMessage = 1004, windowCount = 5, lastTyping = 0, lastReport = 0,
                          windowStart = 1000\<rparr>]"
  have a: "checkRateLimit 1100 (JStr ''u'') ''message'' ?rl
             = (fst (checkRateLimit 1100 (JStr ''u'') ''message'' ?rl), False)"
    by (simp add: checkRateLimit_def rl_consts Let_def)
  have b: "checkRateLimit 1600 (JStr ''u'') ''message'' ?rl
             = (fst (checkRateLimit 1600 (JStr ''u'') ''message'' ?rl), True)"
    by (simp add: checkRateLimit_def rl_consts Let_def)
  have x: "checkRateLimit 20000 (JStr ''u'') ''message'' ?rl
             = (fst (checkRateLimit 20000 (JStr ''u'') ''message'' ?rl), True)"
    by (simp add: checkRateLimit_def rl_consts Let_def)
  have c: "checkRateLimit 1600 (JStr ''u'') ''typing'' ?rl
             = (fst (checkRateLimit 1600 (JStr ''u'') ''typing'' ?rl), True)"
    by (simp add: checkRateLimit_def rl_consts Let_def)
  have d: "checkRateLimit 16000 (JStr ''u'') ''report'' ?rl
             = (fst (checkRateLimit 16000 (JStr ''u'') ''report'' ?rl), True)"
    by (simp add: checkRateLimit_def rl_consts Let_def)
  have o: "checkRateLimit 1600 (JStr ''u'') ''join'' ?rl
             = (fst (checkRateLimit 1600 (JStr ''u'') ''join'' ?rl), True)"
    by (simp add: checkRateLimit_def rl_consts Let_def)
  have p1: "fst (checkRateLimit 1100 (JStr ''u'') ''message'' ?rl) = ?rl"
    using C8_only_allowed_calls_update [OF a] by simp
  have pb: "fst (checkRateLimit 1600 (JStr ''u'') ''message'' ?rl) (JStr ''u'')
     = Some \<lparr>lastMessage = 1600, windowCount = 6, lastTyping = 0, lastReport = 0,
            windowStart = 1000\<rparr>"
    using C8_only_allowed_calls_update [OF b] by (simp add: limitsOf_def)
  have px: "fst (checkRateLimit 20000 (JStr ''u'') ''message'' ?rl) (JStr ''u'')
     = Some \<lparr>lastMessage = 20000, windowCount = 1, lastTyping = 0, lastReport = 0,
            windowStart = 20000\<rparr>"
    using C8_only_allowed_calls_update [OF x] by (simp add: limitsOf_def)
  have pc: "fst (checkRateLimit 1600 (JStr ''u'') ''typing'' ?rl) (JStr ''u'')
     = Some \<lparr>lastMessage = 1004, windowCount = 5, lastTyping = 1600, lastReport = 0,
            windowStart = 1000\<rparr>"
    using C8_only_allowed_calls_update [OF c] by (simp add: limitsOf_def)
  have pd: "fst (checkRateLimit 16000 (JStr ''u'') ''report'' ?rl) (JStr ''u'')
     = Some \<lparr>lastMessage = 1004, windowCount = 5, lastTyping = 0, lastReport = 16000,
            windowStart = 1000\<rparr>"
    using C8_only_allowed_calls_update [OF d] by (simp add: limitsOf_def)
  have po: "fst (checkRateLimit 1600 (JStr ''u'') ''join'' ?rl) (JStr ''u'')
     = Some \<lparr>lastMessage = 1004, windowCount = 5, lastTyping = 0, lastReport = 0,
            windowStart = 1000\<rparr>"
    using C8_only_allowed_calls_update [OF o] by (simp add: limitsOf_def)
  have q: "snd (checkRateLimit 1600 (JStr ''u'') ''join'' ?rl) = True"
    using arg_cong [OF o, of snd] by simp
  have fr: "fst (checkRateLimit 1600 (JStr ''u'') ''typing'' ?rl) (JStr ''v'') = None"
    using C8_only_allowed_calls_update [OF c] by simp
  from p1 pb px pc pd po q fr show ?thesis
    by (intro conjI)
qed

section \<open>Properties of the matchmaking queue\<close>

lemmas rep_defs = recordReport_def recordMessage_def recordSkip_def decayReputations_def
  decayOne_def getReputation_def initializeReputation_def freshReputation_def
  INITIAL_SCORE_def isToxic_def getMatchmakingPriority_def

lemmas mm_defs = mm_run_def addToQueue_def removeFromQueue_def findMatch_def
  findMatchInPriority_def newMatchmaking_def setAdd_def calculateActivityLevel_def noMatch_def
  considerCandidate_def compatScore_def bucketsOf_def endMatch_def

text \<open>
  Inside one bucket the search does what it should: a returned candidate waits in that
  bucket, is not the searcher, and no other waiting user of the bucket has a lower score.
\<close>

lemma considerCandidate_best:
  assumes "bestSoFar metas userMeta seen best"
  shows "bestSoFar metas userMeta (seen @ [c]) (considerCandidate metas userMeta best c)"
proof (cases "metas c")
  case None
  with assms show ?thesis
    by (auto simp: bestSoFar_def considerCandidate_def split: option.splits)
next
  case (Some cm)
  show ?thesis
  proof (cases "snd best")
    case None
    with assms Some show ?thesis
      by (auto simp: bestSoFar_def considerCandidate_def Let_def)
  next
    case (Some sc)
    with assms \<open>metas c = Some cm\<close> show ?thesis
      by (cases "compatScore userMeta cm < sc")
         (fastforce simp: bestSoFar_def considerCandidate_def Let_def)+
  qed
qed

lemma foldl_considerCandidate_best:
  "bestSoFar metas userMeta seen best \<Longrightarrow>
   bestSoFar metas userMeta (seen @ cs) (foldl (considerCandidate metas userMeta) best cs)"
proof (induction cs arbitrary: seen best)
  case Nil
  then show ?case by simp
next
  case (Cons c cs)
  from Cons.IH [OF considerCandidate_best [OF Cons.prems, of c]] show ?case
    by simp
qed

lemma findMatchInPriority_minimal:
  assumes "findMatchInPriority u prio userMeta mm = Some c"
  shows "\<exists>queue cm. waitingQueue mm prio = Some queue \<and> c \<in> set queue \<and> c \<noteq> u
           \<and> userMetadata mm c = Some cm
           \<and> (\<forall>c' \<in> set queue. \<forall>cm'. c' \<noteq> u \<and> userMetadata mm c' = Some cm'
                  \<longrightarrow> compatScore userMeta cm \<le> compatScore userMeta cm')"
proof -
  from assms obtain queue where q: "waitingQueue mm prio = Some queue"
    by (auto simp: findMatchInPriority_def split: option.splits)
  let ?cs = "filter (\<lambda>i. i \<noteq> u) queue"
  let ?best = "foldl (considerCandidate (userMetadata mm) userMeta) (None, None) ?cs"
  from assms q have f: "fst ?best = Some c"
    by (auto simp: findMatchInPriority_def Let_def split: if_splits)
  have "bestSoFar (userMetadata mm) userMeta [] (None, None)"
    by (simp add: bestSoFar_def)
  from foldl_considerCandidate_best [OF this, of ?cs]
  have b: "bestSoFar (userMetadata mm) userMeta ?cs ?best" by simp
  from b f obtain sc where s: "snd ?best = Some sc"
    by (cases "snd ?best") (auto simp: bestSoFar_def)
  from b f s show ?thesis
    unfolding bestSoFar_def using q by (auto simp: s)
qed

text \<open>
  Claim C3, at its failing input. User b has priority 4 (score 85 after one report) and
  waits alone in bucket 4; user a has priority 5 and is alone in bucket 5. The search of
  a finds bucket 5 without another member, turns to bucket 4 and gives up there, because
  \<open>findMatchInPriority\<close> returns \<open>null\<close> for every bucket of fewer than two members:
  \<open>findMatch\<close> returns \<open>null\<close>, not b.
\<close>

theorem C3_lone_neighbour_not_matched:
  "waitingQueue (snd (mm_run (Map.empty, newMatchmaking)
       [(1, Reputation (RecordReport (JStr ''b''))), (2, AddToQueue (JStr ''b'')),
        (3, AddToQueue (JStr ''a''))])) 5 = Some [JStr ''a'']
   \<and> waitingQueue (snd (mm_run (Map.empty, newMatchmaking)
       [(1, Reputation (RecordReport (JStr ''b''))), (2, AddToQueue (JStr ''b'')),
        (3, AddToQueue (JStr ''a''))])) 4 = Some [JStr ''b'']
   \<and> map_option priority (userMetadata (snd (mm_run (Map.empty, newMatchmaking)
       [(1, Reputation (RecordReport (JStr ''b''))), (2, AddToQueue (JStr ''b'')),
        (3, AddToQueue (JStr ''a''))])) (JStr ''a'')) = Some 5
   \<and> snd (findMatch 4 ''x'' (JStr ''a'') (snd (mm_run (Map.empty, newMatchmaking)
       [(1, Reputation (RecordReport (JStr ''b''))), (2, AddToQueue (JStr ''b'')),
        (3, AddToQueue (JStr ''a''))]))) = None"
  by (simp add: rep_defs mm_defs)

text \<open>
  Claim C4, at its failing input. User u joins the queue with score 100 (bucket 5), is
  reported once (score 85) and joins again (bucket 4): \<open>addToQueue\<close> does not dequeue
  first, so u is in both buckets. A later \<open>removeFromQueue\<close> clears bucket 4 only.
\<close>

theorem C4_requeue_in_two_buckets:
  "bucketsOf (snd (mm_run (Map.empty, newMatchmaking)
       [(1, AddToQueue (JStr ''u'')), (2, Reputation (RecordReport (JStr ''u''))),
        (3, AddToQueue (JStr ''u''))])) (JStr ''u'') = [4, 5]
   \<and> bucketsOf (snd (mm_run (Map.empty, newMatchmaking)
       [(1, AddToQueue (JStr ''u'')), (2, Reputation (RecordReport (JStr ''u''))),
        (3, AddToQueue (JStr ''u'')), (4, RemoveFromQueue (JStr ''u''))])) (JStr ''u'') = [5]"
  by (simp add: rep_defs mm_defs)

section \<open>Properties of the handlers\<close>

lemmas sanitize_defs = sanitize_def trim_def tagMatchLen_def scriptMatchLen_def startsWithCI_def
  lowerAscii_def whiteSpace_def lineTerminator_def

lemma sanitize_hi: "sanitize (JStr ''hi'') = ''hi''"
  by (simp add: sanitize_defs)

lemma sanitize_ann: "sanitize (JStr ''ann'') = ''ann''"
  by (simp add: sanitize_defs)

lemma userJoin_ann:
  "userJoin 0 ''1'' ''tok1''
     \<lparr>connSocketId = ''s1'', currentUserId = None, currentSessionToken = None\<rparr> (JStr ''ann'') newServer
   = (\<lparr>connSocketId = ''s1'', currentUserId = Some (JStr ''user-1''), currentSessionToken = Some ''tok1''\<rparr>,
      newServer\<lparr>
        sessionManager := fst (createSession 0 ''tok1'' ''s1'' (JStr ''user-1'') ''ann'' newSessionManager),
        reputationSystem := [JStr ''user-1'' \<mapsto> freshReputation 0],
        adminMetrics := (adminMetrics newServer)\<lparr>peakConcurrentUsers := 1\<rparr>,
        users := [JStr ''user-1'' \<mapsto> \<lparr>uIdent = JStr ''user-1'', uName = ''ann'', uSocketId = ''s1'',
                                        uJoinedAt = 0, uStatus = ''online''\<rparr>],
        activeSockets := [(''s1'', JStr ''user-1'')],
        userSockets := [JStr ''user-1'' \<mapsto> {''s1''}]\<rparr>,
      [Callback (AckJoined (JStr ''user-1'') ''tok1''), ToAll ''onlineUsersUpdate''])"
  by (simp add: userJoin_def sanitize_ann newServer_def initializeReputation_def createSession_def
        newSessionManager_def broadcastOnlineUsers_def getOnlineUsers_def uniq_def
        updateConcurrentUsers_def List.map_filter_def Let_def)

text \<open>
  Claim C6, at its failing input. A client has joined as \<open>ann\<close>: the connection and
  the state below are those that \<open>userJoin\<close> leaves on a new server (lemma
  \<open>userJoin_ann\<close>). It then sends \<open>sendMessage\<close> with the payload
  \<open>{message: 'hi'}\<close>, which has no \<open>roomId\<close>. \<open>validatePayload\<close> accepts it, because
  a schema entry of type \<open>'string'\<close> is only checked on a field that is present and
  truthy. The handler then counts the call in the rate limiter, the reputation record and
  the metrics, buffers the message in the session, emits \<open>newMessage\<close> to the room
  \<open>undefined\<close> and acknowledges success.
\<close>

theorem C6_missing_roomId_accepted:
  "validatePayload (Some [(''message'', JStr ''hi'')])
       [(''roomId'', ''string''), (''message'', ''string'')] = Inr True
   \<and> effectsOf (sendMessage 5000 ''m1''
         \<lparr>connSocketId = ''s1'', currentUserId = Some (JStr ''user-1''),
           currentSessionToken = Some ''tok1''\<rparr>
         (Some [(''message'', JStr ''hi'')])
         (newServer\<lparr>
           sessionManager :=
             fst (createSession 0 ''tok1'' ''s1'' (JStr ''user-1'') ''ann'' newSessionManager),
           reputationSystem := [JStr ''user-1'' \<mapsto> freshReputation 0],
           adminMetrics := (adminMetrics newServer)\<lparr>peakConcurrentUsers := 1\<rparr>,
           users := [JStr ''user-1'' \<mapsto> \<lparr>uIdent = JStr ''user-1'', uName = ''ann'',
                                           uSocketId = ''s1'', uJoinedAt = 0, uStatus = ''online''\<rparr>],
           activeSockets := [(''s1'', JStr ''user-1'')],
           userSockets := [JStr ''user-1'' \<mapsto> {''s1''}]\<rparr>))
     = [ToRoom JUndefined ''newMessage'',
        Callback (AckOkMessage \<lparr>msgId = ''msg-m1'', msgRoomId = JUndefined,
          senderId = JStr ''user-1'', senderName = ''ann'', msgText = ''hi'', timestamp = 5000\<rparr>)]
   \<and> map_option (\<lambda>sv. (map_option windowCount (rateLimits sv (JStr ''user-1'')),
                        map_option messageCount (reputationSystem sv (JStr ''user-1'')),
                        totalMessages (adminMetrics sv),
                        bufferOf (sessionManager sv) ''tok1''))
        (stateAfter (sendMessage 5000 ''m1''
         \<lparr>connSocketId = ''s1'', currentUserId = Some (JStr ''user-1''),
           currentSessionToken = Some ''tok1''\<rparr>
         (Some [(''message'', JStr ''hi'')])
         (newServer\<lparr>
           sessionManager :=
             fst (createSession 0 ''tok1'' ''s1'' (JStr ''user-1'') ''ann'' newSessionManager),
           reputationSystem := [JStr ''user-1'' \<mapsto> freshReputation 0],
           adminMetrics := (adminMetrics newServer)\<lparr>peakConcurrentUsers := 1\<rparr>,
           users := [JStr ''user-1'' \<mapsto> \<lparr>uIdent = JStr ''user-1'', uName = ''ann'',
                                           uSocketId = ''s1'', uJoinedAt = 0, uStatus = ''online''\<rparr>],
           activeSockets := [(''s1'', JStr ''user-1'')],
           userSockets := [JStr ''user-1'' \<mapsto> {''s1''}]\<rparr>)))
     = Some (Some 1, Some 1, 1,
             Some [\<lparr>msgId = ''msg-m1'', msgRoomId = JUndefined, senderId = JStr ''user-1'',
                     senderName = ''ann'', msgText = ''hi'', timestamp = 5000\<rparr>])"
  by (simp add: validatePayload_def field_def sendMessage_def newServer_def
        checkRateLimit_def freshLimits_def MESSAGE_BURST_def MESSAGE_INTERVAL_def sanitize_hi
        recordMessage_def getReputation_def freshReputation_def INITIAL_SCORE_def
        metricsRecordMessage_def effectsOf_def stateAfter_def Let_def
        addMessageToBuffer_def createSession_def newSessionManager_def bufferOf_def
        MESSAGE_BUFFER_SIZE_def)

lemma report_payload_valid:
  assumes "field d ''targetUserId'' = JStr t" and "field d ''reason'' = JStr r"
  shows "validatePayload (Some d) [(''targetUserId'', ''string''), (''reason'', ''string'')] = Inr True"
  using assms by (simp add: validatePayload_def)

lemma recordReport_target:
  "recordReport now u reps u =
     Some ((case reps u of None \<Rightarrow> freshReputation now | Some rep \<Rightarrow> rep)
             \<lparr>reportCount := reportCount (case reps u of None \<Rightarrow> freshReputation now | Some rep \<Rightarrow> rep) + 1,
              score := max 0 (score (case reps u of None \<Rightarrow> freshReputation now | Some rep \<Rightarrow> rep) - 15),
              lastActivity := now\<rparr>)"
  by (simp add: recordReport_def getReputation_def initializeReputation_def split: option.splits)

lemma reportUser_accepted:
  assumes "currentUserId conn = Some uid"
    and "field d ''targetUserId'' = JStr t" and "field d ''reason'' = JStr r"
    and "snd (checkRateLimit now uid ''report'' (rateLimits sv))"
  shows "reportUser now conn (Some d) sv =
     Inr (sv\<lparr>rateLimits := fst (checkRateLimit now uid ''report'' (rateLimits sv)),
             reputationSystem := recordReport now (JStr t) (reputationSystem sv),
             adminMetrics := metricsRecordReport (JStr t) (adminMetrics sv)\<rparr>,
          [Callback (AckOkText ''Report submitted. Thank you.'')])"
proof -
  obtain rl1 where c: "checkRateLimit now uid ''report'' (rateLimits sv) = (rl1, True)"
    using assms(4) by (cases "checkRateLimit now uid ''report'' (rateLimits sv)") auto
  show ?thesis
    by (simp add: reportUser_def report_payload_valid [OF assms(2,3)] assms(1,2) c Let_def)
qed

text \<open>
  Claim C10. When a connection with a user sends \<open>reportUser\<close> with a string
  \<open>targetUserId\<close> and a string \<open>reason\<close>, and the reporter's rate limit allows it, the
  handler acknowledges success and penalises the record stored under that string:
  \<open>reportCount\<close> plus one, \<open>score\<close> minus 15 but not below 0. Nothing is assumed
  about \<open>users\<close>: the target need not exist. Where no record existed, one is created
  with score 100 first, so it ends with score 85 and one report.
\<close>

theorem C10_report_unchecked_target:
  assumes "currentUserId conn = Some uid"
    and "field d ''targetUserId'' = JStr t" and "field d ''reason'' = JStr r"
    and "snd (checkRateLimit now uid ''report'' (rateLimits sv))"
  shows "effectsOf (reportUser now conn (Some d) sv)
           = [Callback (AckOkText ''Report submitted. Thank you.'')]
       \<and> reputationAfter (reportUser now conn (Some d) sv) (JStr t)
           = Some ((case reputationSystem sv (JStr t) of None \<Rightarrow> freshReputation now | Some rep \<Rightarrow> rep)
               \<lparr>reportCount := reportCount (case reputationSystem sv (JStr t) of
                                              None \<Rightarrow> freshReputation now | Some rep \<Rightarrow> rep) + 1,
                score := max 0 (score (case reputationSystem sv (JStr t) of
                                         None \<Rightarrow> freshReputation now | Some rep \<Rightarrow> rep) - 15),
                lastActivity := now\<rparr>)
       \<and> (reputationSystem sv (JStr t) = None \<longrightarrow>
            map_option score (reputationAfter (reportUser now conn (Some d) sv) (JStr t)) = Some 85
          \<and> map_option reportCount (reputationAfter (reportUser now conn (Some d) sv) (JStr t)) = Some 1)"
  by (simp add: reportUser_accepted [OF assms] effectsOf_def reputationAfter_def stateAfter_def
        recordReport_target freshReputation_def INITIAL_SCORE_def)

theorem C10_report_unchecked_target_witness:
  "effectsOf (reportUser 20000
       \<lparr>connSocketId = ''s1'', currentUserId = Some (JStr ''user-1''), currentSessionToken = None\<rparr>
       (Some [(''targetUserId'', JStr ''nobody''), (''reason'', JStr ''spam'')]) newServer)
     = [Callback (AckOkText ''Report submitted. Thank you.'')]
   \<and> users newServer (JStr ''nobody'') = None
   \<and> map_option score (reputationAfter (reportUser 20000
       \<lparr>connSocketId = ''s1'', currentUserId = Some (JStr ''user-1''), currentSessionToken = None\<rparr>
       (Some [(''targetUserId'', JStr ''nobody''), (''reason'', JStr ''spam'')]) newServer)
       (JStr ''nobody'')) = Some 85
   \<and> map_option reportCount (reputationAfter (reportUser 20000
       \<lparr>connSocketId = ''s1'', currentUserId = Some (JStr ''user-1''), currentSessionToken = None\<rparr>
       (Some [(''targetUserId'', JStr ''nobody''), (''reason'', JStr ''spam'')]) newServer)
       (JStr ''nobody'')) = Some 1"
proof -
  let ?conn = "\<lparr>connSocketId = ''s1'', currentUserId = Some (JStr ''user-1''),
                 currentSessionToken = None\<rparr>"
  let ?d = "[(''targetUserId'', JStr ''nobody''), (''reason'', JStr ''spam'')]"
  have a: "currentUserId ?conn = Some (JStr ''user-1'')" by simp
  have t: "field ?d ''targetUserId'' = JStr ''nobody''" by (simp add: field_def)
  have r: "field ?d ''reason'' = JStr ''spam''" by (simp add: field_def)
  have k: "snd (checkRateLimit 20000 (JStr ''user-1'') ''report'' (rateLimits newServer))"
    by (simp add: checkRateLimit_def newServer_def freshLimits_def REPORT_INTERVAL_def)
  have n: "reputationSystem newServer (JStr ''nobody'') = None"
    by (simp add: newServer_def)
  have u: "users newServer (JStr ''nobody'') = None"
    by (simp add: newServer_def)
  from C10_report_unchecked_target [OF a t r k] n u show ?thesis
    by (simp add: freshReputation_def INITIAL_SCORE_def)
qed

lemma leavePrivateRooms_fold_lookup:
  assumes "distinct (map fst xs)"
  shows "map_of (fst (foldl (leavePrivateRoom uid) (acc0, mm0, effs0) xs)) k
         = (case map_of xs k of
              None \<Rightarrow> map_of acc0 k
            | Some room \<Rightarrow>
                if uid \<in> participants room
                then (if participants room - {uid} = {} then None
                      else Some (removeParticipant uid room))
                else map_of acc0 k)"
  using assms
proof (induction xs arbitrary: acc0 mm0 effs0 k)
  case Nil
  then show ?case by simp
next
  case (Cons x xs)
  obtain c r where x: "x = (c, r)" by (cases x)
  from Cons.prems have d: "distinct (map fst xs)" and c: "map_of xs c = None"
    by (auto simp: x map_of_eq_None_iff)
  show ?case
    using c
    by (simp add: x Cons.IH [OF d] Let_def removeParticipant_def update_conv' delete_conv'
          split: option.splits)
qed

lemma leavePrivateRooms_last:
  assumes "distinct (map fst rooms)" and "map_of rooms cid = Some room"
    and "participants room = {uid}"
  shows "map_of (fst (leavePrivateRooms uid rooms mm)) cid = None"
  unfolding leavePrivateRooms_def
  by (simp add: leavePrivateRooms_fold_lookup [OF assms(1)] assms(2,3))

lemma disconnect_rooms:
  assumes "currentUserId conn = Some uid"
  shows "roomAfter (disconnect conn sv) cid
         = Some (map_of (fst (leavePrivateRooms uid (privateChatRooms sv)
                               (removeFromQueue uid (matchmaking sv)))) cid)"
  by (simp add: disconnect_def assms roomAfter_def stateAfter_def Let_def split_beta
        broadcastOnlineUsers_def split: option.splits)

lemma skipMatch_last:
  assumes "currentUserId conn = Some uid" and "cid \<noteq> []"
    and "map_of (privateChatRooms sv) cid = Some room" and "participants room = {uid}"
  shows "roomAfter (skipMatch now conn (JStr cid) sv) cid = Some None"
  using assms
  by (simp add: skipMatch_def roomAfter_def stateAfter_def Let_def removeParticipant_def
        delete_conv')

lemma leaveRoom_last:
  assumes "currentUserId conn = Some uid" and "cid \<noteq> []"
    and "map_of (publicRooms sv) cid = None"
    and "map_of (privateChatRooms sv) cid = Some room" and "participants room = {uid}"
  shows "roomAfter (leaveRoom conn (JStr cid) sv) cid = Some (Some (room\<lparr>participants := {}\<rparr>))"
  using assms
  by (simp add: leaveRoom_def roomAfter_def stateAfter_def Let_def removeParticipant_def
        update_conv')

lemma cleanup_fold_lookup:
  assumes "distinct (map fst xs)"
  shows "map_of (foldl (cleanupRoom now) acc0 xs) k
         = (case map_of xs k of
              None \<Rightarrow> map_of acc0 k
            | Some room \<Rightarrow>
                if participants room = {} \<and> now - roomCreatedAt room > 60000 then None
                else map_of acc0 k)"
  using assms
proof (induction xs arbitrary: acc0 k)
  case Nil
  then show ?case by simp
next
  case (Cons x xs)
  obtain c r where x: "x = (c, r)" by (cases x)
  from Cons.prems have d: "distinct (map fst xs)" and c: "map_of xs c = None"
    by (auto simp: x map_of_eq_None_iff)
  show ?case
    using c
    by (simp add: x Cons.IH [OF d] delete_conv' split: option.splits)
qed

lemma cleanupEmptyRooms_lookup:
  assumes "distinct (map fst rooms)"
  shows "map_of (cleanupEmptyRooms now rooms) k
         = (case map_of rooms k of
              None \<Rightarrow> None
            | Some room \<Rightarrow>
                if participants room = {} \<and> now - roomCreatedAt room > 60000 then None
                else Some room)"
  unfolding cleanupEmptyRooms_def
  by (simp add: cleanup_fold_lookup [OF assms] split: option.splits)

text \<open>
  Claim C5, as amended. In the matchmaking server, when the only participant of a private
  or random room leaves it through \<open>skipMatch\<close> or through \<open>disconnect\<close>, the room is
  deleted in that same step; through \<open>leaveRoom\<close> the participant is removed and the
  empty room stays. The sweep \<open>cleanupEmptyRooms\<close> of the basic server keeps every room
  that has a participant or that was created at most 60000 ms before the sweep.
\<close>

theorem C5_last_leave_deletes_at_once:
  assumes "currentUserId conn = Some uid"
    and "distinct (map fst (privateChatRooms sv))"
    and "map_of (privateChatRooms sv) cid = Some room"
    and "participants room = {uid}"
    and "cid \<noteq> []"
    and "map_of (publicRooms sv) cid = None"
  shows "roomAfter (skipMatch now conn (JStr cid) sv) cid = Some None
       \<and> roomAfter (disconnect conn sv) cid = Some None
       \<and> roomAfter (leaveRoom conn (JStr cid) sv) cid = Some (Some (room\<lparr>participants := {}\<rparr>))
       \<and> (distinct (map fst rooms) \<and> map_of rooms k = Some (r :: chatRoom)
            \<and> (participants r \<noteq> {} \<or> t - roomCreatedAt r \<le> 60000)
          \<longrightarrow> map_of (cleanupEmptyRooms t rooms) k = Some r)"
proof -
  have a: "roomAfter (skipMatch now conn (JStr cid) sv) cid = Some None"
    using assms(1,5,3,4) by (rule skipMatch_last)
  have b: "roomAfter (disconnect conn sv) cid = Some None"
    by (simp add: disconnect_rooms [OF assms(1)] leavePrivateRooms_last [OF assms(2,3,4)])
  have c: "roomAfter (leaveRoom conn (JStr cid) sv) cid = Some (Some (room\<lparr>participants := {}\<rparr>))"
    using assms(1,5,6,3,4) by (rule leaveRoom_last)
  have d: "map_of (cleanupEmptyRooms t rooms) k = Some r"
    if "distinct (map fst rooms)" and "map_of rooms k = Some r"
      and "participants r \<noteq> {} \<or> t - roomCreatedAt r \<le> 60000"
    using that by (auto simp: cleanupEmptyRooms_lookup)
  from a b c d show ?thesis by blast
qed

theorem C5_last_leave_deletes_at_once_witness:
  "roomAfter (skipMatch 1000
       \<lparr>connSocketId = ''s1'', currentUserId = Some (JStr ''user-1''), currentSessionToken = None\<rparr>
       (JStr ''match-1'')
       (newServer\<lparr>privateChatRooms := [(''match-1'',
           \<lparr>participants = {JStr ''user-1''}, roomCreatedAt = 0, roomIdent = ''match-1'',
            roomType = ''random''\<rparr>)]\<rparr>)) ''match-1'' = Some None
   \<and> roomAfter (disconnect
       \<lparr>connSocketId = ''s1'', currentUserId = Some (JStr ''user-1''), currentSessionToken = None\<rparr>
       (newServer\<lparr>privateChatRooms := [(''match-1'',
           \<lparr>participants = {JStr ''user-1''}, roomCreatedAt = 0, roomIdent = ''match-1'',
            roomType = ''random''\<rparr>)]\<rparr>)) ''match-1'' = Some None
   \<and> roomAfter (leaveRoom
       \<lparr>connSocketId = ''s1'', currentUserId = Some (JStr ''user-1''), currentSessionToken = None\<rparr>
       (JStr ''match-1'')
       (newServer\<lparr>privateChatRooms := [(''match-1'',
           \<lparr>participants = {JStr ''user-1''}, roomCreatedAt = 0, roomIdent = ''match-1'',
            roomType = ''random''\<rparr>)]\<rparr>)) ''match-1''
       = Some (Some \<lparr>participants = {}, roomCreatedAt = 0, roomIdent = ''match-1'',
                      roomType = ''random''\<rparr>)
   \<and> map_of (cleanupEmptyRooms 50000 [(''random-1'', \<lparr>participants = {}, roomCreatedAt = 1000\<rparr>)])
         ''random-1'' = Some \<lparr>participants = {}, roomCreatedAt = 1000\<rparr>"
proof -
  let ?conn = "\<lparr>connSocketId = ''s1'', currentUserId = Some (JStr ''user-1''),
                 currentSessionToken = None\<rparr>"
  let ?room = "\<lparr>participants = {JStr ''user-1''}, roomCreatedAt = 0, roomIdent = ''match-1'',
                 roomType = ''random''\<rparr>"
  let ?sv = "newServer\<lparr>privateChatRooms := [(''match-1'', ?room)]\<rparr>"
  let ?r = "\<lparr>participants = {}, roomCreatedAt = 1000\<rparr> :: chatRoom"
  have h1: "currentUserId ?conn = Some (JStr ''user-1'')" by simp
  have h2: "distinct (map fst (privateChatRooms ?sv))" by simp
  have h3: "map_of (privateChatRooms ?sv) ''match-1'' = Some ?room" by simp
  have h4: "participants ?room = {JStr ''user-1''}" by simp
  have h5: "''match-1'' \<noteq> []" by simp
  have h6: "map_of (publicRooms ?sv) ''match-1'' = None" by (simp add: newServer_def)
  have h7: "distinct (map fst [(''random-1'', ?r)]) \<and> map_of [(''random-1'', ?r)] ''random-1'' = Some ?r
            \<and> (participants ?r \<noteq> {} \<or> 50000 - roomCreatedAt ?r \<le> 60000)"
    by simp
  from C5_last_leave_deletes_at_once [OF h1 h2 h3 h4 h5 h6,
         where rooms = "[(''random-1'', ?r)]" and k = "''random-1''" and r = ?r and t = 50000
           and now = 1000] h7
  show ?thesis
    by simp
qed

text \<open>
  The claim as stated fails: a room created at time 0 whose only participant skips at time
  1000 is gone from \<open>privateChatRooms\<close> when the handler returns.
\<close>

theorem C5_counterexample:
  "map_of (privateChatRooms (newServer\<lparr>privateChatRooms := [(''match-1'',
           \<lparr>participants = {JStr ''user-1''}, roomCreatedAt = 0, roomIdent = ''match-1'',
            roomType = ''random''\<rparr>)]\<rparr>)) ''match-1''
     = Some \<lparr>participants = {JStr ''user-1''}, roomCreatedAt = 0, roomIdent = ''match-1'',
              roomType = ''random''\<rparr>
   \<and> map_option privateChatRooms (stateAfter (skipMatch 1000
       \<lparr>connSocketId = ''s1'', currentUserId = Some (JStr ''user-1''), currentSessionToken = None\<rparr>
       (JStr ''match-1'')
       (newServer\<lparr>privateChatRooms := [(''match-1'',
           \<lparr>participants = {JStr ''user-1''}, roomCreatedAt = 0, roomIdent = ''match-1'',
            roomType = ''random''\<rparr>)]\<rparr>))) = Some []"
  by (simp add: skipMatch_def stateAfter_def removeParticipant_def newServer_def Let_def)


end
